theory Spec2Isabelle
  imports Complex_Main "HOL-Library.Multiset"
begin

section \<open>The scikit-learn objects the notebooks call\<close>

text \<open>
  The two notebooks (\<^verbatim>\<open>unit_testing_data_engineering.ipynb\<close> and the model-quality
  notebook) define \<^verbatim>\<open>SimplePipeline\<close>, \<^verbatim>\<open>PipelineWithDataEngineering\<close> and two
  \<^verbatim>\<open>unittest\<close> classes. Everything else is scikit-learn: \<^verbatim>\<open>datasets.load_iris\<close>,
  \<^verbatim>\<open>train_test_split\<close>, \<^verbatim>\<open>StandardScaler\<close>, \<^verbatim>\<open>LogisticRegression\<close> and
  \<^verbatim>\<open>accuracy_score\<close>. The Iris values, the permutations the random generators draw
  and the fitted classifier are parameters of the model (record \<open>sklearn\<close>); the arithmetic of the split sizes, of the scaler and of the accuracy is
  written out as the library documents it. Python floats are read as real numbers:
  rounding is not modelled.
\<close>

type_synonym matrix = "real list list"
type_synonym labels = "int list"

datatype error = ValueError | AttributeError | TypeError

text \<open>The \<^verbatim>\<open>Bunch\<close> returned by \<^verbatim>\<open>datasets.load_iris()\<close>: \<^verbatim>\<open>data\<close>, \<^verbatim>\<open>target\<close>,
  \<^verbatim>\<open>feature_names\<close>.\<close>

record dataset =
  ds_data :: matrix
  ds_target :: labels
  ds_feature_names :: "string list"

text \<open>A fitted classifier is its row-wise \<^verbatim>\<open>predict\<close>; an algorithm is what
  \<^verbatim>\<open>algorithm(solver='lbfgs', multi_class='auto').fit(X, y)\<close> does: it raises or yields
  a fitted classifier.\<close>

type_synonym classifier = "real list \<Rightarrow> int"
type_synonym algorithm = "matrix \<Rightarrow> labels \<Rightarrow> error + classifier"

text \<open>The state of a random generator, and the library as a call finds it.
  \<open>permutation sk seed n\<close> is \<^verbatim>\<open>RandomState(seed).permutation(n)\<close>, the first draw of a
  generator freshly built from an integer seed. \<open>np_random sk\<close> is the state of numpy's
  module-level generator at the time of the call, which every unseeded draw of the process
  advances, and \<open>global_permutation sk g n\<close> is the permutation that generator draws in
  state \<open>g\<close>, with its next state. The library promises permutations of \<open>0..<n\<close>.\<close>

type_synonym rng_state = nat

record sklearn =
  load_iris :: dataset
  permutation :: "nat \<Rightarrow> nat \<Rightarrow> nat list"
  np_random :: rng_state
  global_permutation :: "rng_state \<Rightarrow> nat \<Rightarrow> nat list \<times> rng_state"
  LogisticRegression :: algorithm

definition valid_permutation :: "sklearn \<Rightarrow> bool" where
  "valid_permutation sk = (\<forall>seed n. mset (permutation sk seed n) = mset [0..<n])"

subsection \<open>\<^verbatim>\<open>train_test_split(X, y, test_size=..., random_state=...)\<close>\<close>

text \<open>With a float \<^verbatim>\<open>test_size\<close> and no \<^verbatim>\<open>train_size\<close>: \<^verbatim>\<open>n_test = ceil(test_size * n_samples)\<close>,
  \<^verbatim>\<open>n_train = n_samples - n_test\<close>, a \<^verbatim>\<open>ValueError\<close> when the arrays differ in
  length or the training set would be empty; then \<^verbatim>\<open>ind_test = permutation[:n_test]\<close>,
  \<^verbatim>\<open>ind_train = permutation[n_test:n_test + n_train]\<close>, and the result is
  \<^verbatim>\<open>X_train, X_test, y_train, y_test\<close>. The permutation comes from
  \<^verbatim>\<open>check_random_state(random_state)\<close>: a fresh generator for an integer seed, numpy's
  module-level generator for \<^verbatim>\<open>None\<close>, whose state the draw then advances.\<close>

definition n_test_of :: "rat \<Rightarrow> nat \<Rightarrow> nat" where
  "n_test_of test_size n_samples = nat \<lceil>test_size * of_nat n_samples\<rceil>"

definition ind_test :: "sklearn \<Rightarrow> rat \<Rightarrow> nat \<Rightarrow> nat \<Rightarrow> nat list" where
  "ind_test sk test_size random_state n_samples =
     take (n_test_of test_size n_samples) (permutation sk random_state n_samples)"

definition ind_train :: "sklearn \<Rightarrow> rat \<Rightarrow> nat \<Rightarrow> nat \<Rightarrow> nat list" where
  "ind_train sk test_size random_state n_samples =
     take (n_samples - n_test_of test_size n_samples)
       (drop (n_test_of test_size n_samples) (permutation sk random_state n_samples))"

definition train_test_split ::
  "sklearn \<Rightarrow> matrix \<Rightarrow> labels \<Rightarrow> rat \<Rightarrow> nat option \<Rightarrow>
     error + (matrix \<times> matrix \<times> labels \<times> labels)" where
  "train_test_split sk X y test_size random_state =
     (let n_samples = length X;
          n_test = n_test_of test_size n_samples;
          n_train = n_samples - n_test
      in if length y \<noteq> n_samples \<or> n_train = 0 then Inl ValueError
         else
           (case random_state of
              Some seed \<Rightarrow>
                let tr = ind_train sk test_size seed n_samples;
                    te = ind_test sk test_size seed n_samples
                in Inr (map ((!) X) tr, map ((!) X) te, map ((!) y) tr, map ((!) y) te)
            | None \<Rightarrow>
                let p = fst (global_permutation sk (np_random sk) n_samples);
                    te = take n_test p;
                    tr = take n_train (drop n_test p)
                in Inr (map ((!) X) tr, map ((!) X) te, map ((!) y) tr, map ((!) y) te)))"

text \<open>The state of the module-level generator after a call that does not raise.\<close>

definition np_random_after_split :: "sklearn \<Rightarrow> nat option \<Rightarrow> nat \<Rightarrow> rng_state" where
  "np_random_after_split sk random_state n_samples =
     (case random_state of
        Some seed \<Rightarrow> np_random sk
      | None \<Rightarrow> snd (global_permutation sk (np_random sk) n_samples))"

subsection \<open>\<^verbatim>\<open>StandardScaler()\<close>\<close>

text \<open>\<^verbatim>\<open>fit\<close> stores the mean and the population standard deviation of every column
  (\<^verbatim>\<open>mean_\<close> and \<^verbatim>\<open>scale_\<close>, here \<open>sc_mean\<close> and \<open>sc_scale\<close>), a zero deviation replaced by 1;
  \<^verbatim>\<open>transform\<close> returns
  \<^verbatim>\<open>(X - mean_) / scale_\<close>. Both raise \<^verbatim>\<open>ValueError\<close> on an array with no row, and
  \<^verbatim>\<open>transform\<close> on an array whose number of columns is not the fitted one.\<close>

record StandardScaler =
  sc_mean :: "real list"
  sc_scale :: "real list"

definition column :: "nat \<Rightarrow> matrix \<Rightarrow> real list" where
  "column j X = map (\<lambda>r. r ! j) X"

definition mean :: "real list \<Rightarrow> real" where
  "mean xs = sum_list xs / real (length xs)"

definition var :: "real list \<Rightarrow> real" where
  "var xs = sum_list (map (\<lambda>x. (x - mean xs)\<^sup>2) xs) / real (length xs)"

definition std :: "real list \<Rightarrow> real" where
  "std xs = sqrt (var xs)"

definition handle_zeros_in_scale :: "real \<Rightarrow> real" where
  "handle_zeros_in_scale s = (if s = 0 then 1 else s)"

definition fit :: "matrix \<Rightarrow> error + StandardScaler" where
  "fit X =
     (case X of
        [] \<Rightarrow> Inl ValueError
      | r # _ \<Rightarrow>
          if list_all (\<lambda>r'. length r' = length r) X
          then Inr \<lparr>sc_mean = map (\<lambda>j. mean (column j X)) [0..<length r],
                    sc_scale = map (\<lambda>j. handle_zeros_in_scale (std (column j X))) [0..<length r]\<rparr>
          else Inl ValueError)"

definition transform :: "StandardScaler \<Rightarrow> matrix \<Rightarrow> error + matrix" where
  "transform sc X =
     (if X = [] \<or> \<not> list_all (\<lambda>r. length r = length (sc_mean sc)) X then Inl ValueError
      else Inr (map (\<lambda>r. map (\<lambda>j. (r ! j - sc_mean sc ! j) / sc_scale sc ! j) [0..<length r]) X))"

subsection \<open>\<^verbatim>\<open>accuracy_score\<close> and \<^verbatim>\<open>ClassifierMixin.score\<close>\<close>

text \<open>The fraction of positions at which the two label arrays agree; \<^verbatim>\<open>ValueError\<close> when
  their lengths differ. No number is returned for empty arrays here.\<close>

definition accuracy_score :: "labels \<Rightarrow> labels \<Rightarrow> error + real" where
  "accuracy_score y_true y_pred =
     (if length y_true \<noteq> length y_pred \<or> y_true = [] then Inl ValueError
      else Inr (real (length (filter (\<lambda>(t, p). t = p) (zip y_true y_pred)))
                / real (length y_true)))"

text \<open>\<^verbatim>\<open>model.predict(X)\<close> of a fitted classifier: one label per row, \<^verbatim>\<open>ValueError\<close> on an
  array with no row. (The classifier also refuses an array whose number of columns is not
  the one it was fitted on; a classifier that is a function of a row does not record that
  number.)\<close>

definition classifier_predict :: "classifier \<Rightarrow> matrix \<Rightarrow> error + labels" where
  "classifier_predict m X = (if X = [] then Inl ValueError else Inr (map m X))"

text \<open>\<^verbatim>\<open>model.score(X, y)\<close> is \<^verbatim>\<open>accuracy_score(y, self.predict(X))\<close>.\<close>

definition score :: "classifier \<Rightarrow> matrix \<Rightarrow> labels \<Rightarrow> error + real" where
  "score m X y =
     (case classifier_predict m X of
        Inl e \<Rightarrow> Inl e
      | Inr y_pred \<Rightarrow> accuracy_score y y_pred)"

section \<open>\<^verbatim>\<open>SimplePipeline\<close>\<close>

text \<open>\<^verbatim>\<open>pd.DataFrame(dataset.data, columns=self.feature_names)\<close> with the \<^verbatim>\<open>target\<close>
  column added. The Iris feature names are distinct and none is \<^verbatim>\<open>target\<close>, so
  \<^verbatim>\<open>frame[self.feature_names]\<close> is the data and \<^verbatim>\<open>frame.target\<close> the labels.\<close>

record DataFrame =
  df_columns :: "string list"
  df_values :: matrix
  df_target :: labels

text \<open>The attributes of the object, \<^verbatim>\<open>None\<close> until \<^verbatim>\<open>load_dataset\<close> or \<^verbatim>\<open>train\<close>
  sets them. \<^verbatim>\<open>__init__\<close> initialises \<^verbatim>\<open>self.Y_test\<close> (capital Y), which nothing
  reads or writes afterwards; \<^verbatim>\<open>self.y_test\<close> and \<^verbatim>\<open>self.feature_names\<close> are created
  by the \<^verbatim>\<open>load_dataset\<close> call that ends \<^verbatim>\<open>__init__\<close>, before anything can read them.\<close>

record SimplePipeline =
  frame :: "DataFrame option"
  feature_names :: "string list"
  X_train :: "matrix option"
  X_test :: "matrix option"
  y_train :: "labels option"
  y_test :: "labels option"
  Y_test :: "labels option"
  model :: "classifier option"

definition load_dataset :: "sklearn \<Rightarrow> 'a SimplePipeline_scheme \<Rightarrow> error + 'a SimplePipeline_scheme" where
  "load_dataset sk self =
     (let dataset = load_iris sk;
          names = map (\<lambda>fn. take (length fn - 5) fn) (ds_feature_names dataset)
      in if \<not> list_all (\<lambda>r. length r = length names) (ds_data dataset) then Inl ValueError
         else if length (ds_target dataset) \<noteq> length (ds_data dataset) then Inl ValueError
         else
           case train_test_split sk (ds_data dataset) (ds_target dataset) (65 / 100) (Some 42) of
             Inl e \<Rightarrow> Inl e
           | Inr (Xtr, Xte, ytr, yte) \<Rightarrow>
               Inr (self\<lparr>frame := Some \<lparr>df_columns = names, df_values = ds_data dataset,
                                         df_target = ds_target dataset\<rparr>,
                         feature_names := names,
                         X_train := Some Xtr, X_test := Some Xte,
                         y_train := Some ytr, y_test := Some yte\<rparr>))"

definition SimplePipeline_init :: "sklearn \<Rightarrow> error + SimplePipeline" where
  "SimplePipeline_init sk =
     load_dataset sk \<lparr>frame = None, feature_names = [], X_train = None, X_test = None,
                      y_train = None, y_test = None, Y_test = None, model = None\<rparr>"

definition train :: "algorithm \<Rightarrow> 'a SimplePipeline_scheme \<Rightarrow> error + 'a SimplePipeline_scheme" where
  "train algorithm self =
     (case (X_train self, y_train self) of
        (Some X, Some y) \<Rightarrow>
          (case algorithm X y of
             Inl e \<Rightarrow> Inl e
           | Inr m \<Rightarrow> Inr (self\<lparr>model := Some m\<rparr>))
      | _ \<Rightarrow> Inl ValueError)"

definition predict :: "'a SimplePipeline_scheme \<Rightarrow> matrix \<Rightarrow> error + labels" where
  "predict self input_data =
     (case model self of
        None \<Rightarrow> Inl AttributeError
      | Some m \<Rightarrow> classifier_predict m input_data)"

definition get_accuracy :: "'a SimplePipeline_scheme \<Rightarrow> error + real" where
  "get_accuracy self =
     (case model self of
        None \<Rightarrow> Inl AttributeError
      | Some m \<Rightarrow>
          (case (X_test self, y_test self) of
             (Some X, Some y) \<Rightarrow> score m X y
           | _ \<Rightarrow> Inl ValueError))"

definition run_pipeline :: "sklearn \<Rightarrow> 'a SimplePipeline_scheme \<Rightarrow> error + 'a SimplePipeline_scheme" where
  "run_pipeline sk self =
     (case load_dataset sk self of
        Inl e \<Rightarrow> Inl e
      | Inr self1 \<Rightarrow> train (LogisticRegression sk) self1)"

section \<open>\<^verbatim>\<open>PipelineWithDataEngineering(SimplePipeline)\<close>\<close>

record PipelineWithDataEngineering = SimplePipeline +
  scaler :: StandardScaler

definition PipelineWithDataEngineering_init :: "sklearn \<Rightarrow> error + PipelineWithDataEngineering" where
  "PipelineWithDataEngineering_init sk =
     (case SimplePipeline_init sk of
        Inl e \<Rightarrow> Inl e
      | Inr self \<Rightarrow>
          (case X_train self of
             None \<Rightarrow> Inl ValueError
           | Some X \<Rightarrow>
               (case fit X of
                  Inl e \<Rightarrow> Inl e
                | Inr sc \<Rightarrow> Inr (SimplePipeline.extend self (PipelineWithDataEngineering.fields sc)))))"

definition apply_scaler :: "PipelineWithDataEngineering \<Rightarrow> error + PipelineWithDataEngineering" where
  "apply_scaler self =
     (case X_train self of
        None \<Rightarrow> Inl ValueError
      | Some Xtr \<Rightarrow>
          (case transform (scaler self) Xtr of
             Inl e \<Rightarrow> Inl e
           | Inr Xtr' \<Rightarrow>
               (case X_test self of
                  None \<Rightarrow> Inl ValueError
                | Some Xte \<Rightarrow>
                    (case transform (scaler self) Xte of
                       Inl e \<Rightarrow> Inl e
                     | Inr Xte' \<Rightarrow> Inr (self\<lparr>X_train := Some Xtr', X_test := Some Xte'\<rparr>)))))"

definition PipelineWithDataEngineering_predict ::
  "PipelineWithDataEngineering \<Rightarrow> matrix \<Rightarrow> error + labels" where
  "PipelineWithDataEngineering_predict self input_data =
     (case transform (scaler self) input_data of
        Inl e \<Rightarrow> Inl e
      | Inr scaled_input_data \<Rightarrow>
          (case model self of
             None \<Rightarrow> Inl AttributeError
           | Some m \<Rightarrow> classifier_predict m scaled_input_data))"

definition PipelineWithDataEngineering_run_pipeline ::
  "sklearn \<Rightarrow> PipelineWithDataEngineering \<Rightarrow> error + PipelineWithDataEngineering" where
  "PipelineWithDataEngineering_run_pipeline sk self =
     (case load_dataset sk self of
        Inl e \<Rightarrow> Inl e
      | Inr self1 \<Rightarrow>
          (case apply_scaler self1 of
             Inl e \<Rightarrow> Inl e
           | Inr self2 \<Rightarrow> train (LogisticRegression sk) self2))"

text \<open>The last cell of the model-quality notebook redefines the class with the
  \<^verbatim>\<open>self.apply_scaler()\<close> line of \<^verbatim>\<open>run_pipeline\<close> commented out.\<close>

definition PipelineWithDataEngineering_run_pipeline_without_scaler ::
  "sklearn \<Rightarrow> PipelineWithDataEngineering \<Rightarrow> error + PipelineWithDataEngineering" where
  "PipelineWithDataEngineering_run_pipeline_without_scaler sk self =
     (case load_dataset sk self of
        Inl e \<Rightarrow> Inl e
      | Inr self1 \<Rightarrow> train (LogisticRegression sk) self1)"

section \<open>The test classes\<close>


text \<open>\<^verbatim>\<open>TestIrisPredictions.setUp\<close>: both pipelines are constructed and run, and
  \<^verbatim>\<open>benchmark_predictions = [1.0] * len(self.pipeline_v1.y_test)\<close>. The float 1.0 compares
  equal to the integer label 1, so the benchmark is a list of labels 1.\<close>

record TestIrisPredictions =
  pipeline_v1 :: SimplePipeline
  pipeline_v2 :: PipelineWithDataEngineering
  benchmark_predictions :: labels

definition TestIrisPredictions_setUp :: "sklearn \<Rightarrow> error + TestIrisPredictions" where
  "TestIrisPredictions_setUp sk =
     (case SimplePipeline_init sk of
        Inl e \<Rightarrow> Inl e
      | Inr v1 \<Rightarrow>
          (case PipelineWithDataEngineering_init sk of
             Inl e \<Rightarrow> Inl e
           | Inr v2 \<Rightarrow>
               (case run_pipeline sk v1 of
                  Inl e \<Rightarrow> Inl e
                | Inr v1' \<Rightarrow>
                    (case PipelineWithDataEngineering_run_pipeline sk v2 of
                       Inl e \<Rightarrow> Inl e
                     | Inr v2' \<Rightarrow>
                         (case y_test v1' of
                            None \<Rightarrow> Inl TypeError
                          | Some y \<Rightarrow>
                              Inr \<lparr>pipeline_v1 = v1', pipeline_v2 = v2',
                                   benchmark_predictions = replicate (length y) 1\<rparr>)))))"

text \<open>The two accuracies \<^verbatim>\<open>test_accuracy_higher_than_benchmark\<close> compares, and the two
  \<^verbatim>\<open>test_accuracy_compared_to_previous_version\<close> compares; each test passes when its
  \<^verbatim>\<open>assertTrue\<close> holds.\<close>

definition benchmark_accuracy :: "TestIrisPredictions \<Rightarrow> error + real" where
  "benchmark_accuracy t =
     (case y_test (pipeline_v1 t) of
        None \<Rightarrow> Inl TypeError
      | Some y \<Rightarrow> accuracy_score y (benchmark_predictions t))"

definition actual_accuracy :: "TestIrisPredictions \<Rightarrow> error + real" where
  "actual_accuracy t =
     (case X_test (pipeline_v1 t) of
        None \<Rightarrow> Inl TypeError
      | Some X \<Rightarrow>
          (case predict (pipeline_v1 t) X of
             Inl e \<Rightarrow> Inl e
           | Inr predictions \<Rightarrow>
               (case y_test (pipeline_v1 t) of
                  None \<Rightarrow> Inl TypeError
                | Some y \<Rightarrow> accuracy_score y predictions)))"

definition test_accuracy_higher_than_benchmark :: "TestIrisPredictions \<Rightarrow> error + bool" where
  "test_accuracy_higher_than_benchmark t =
     (case benchmark_accuracy t of
        Inl e \<Rightarrow> Inl e
      | Inr b \<Rightarrow>
          (case actual_accuracy t of
             Inl e \<Rightarrow> Inl e
           | Inr a \<Rightarrow> Inr (a > b)))"

definition test_accuracy_compared_to_previous_version :: "TestIrisPredictions \<Rightarrow> error + bool" where
  "test_accuracy_compared_to_previous_version t =
     (case get_accuracy (pipeline_v1 t) of
        Inl e \<Rightarrow> Inl e
      | Inr v1_accuracy \<Rightarrow>
          (case get_accuracy (pipeline_v2 t) of
             Inl e \<Rightarrow> Inl e
           | Inr v2_accuracy \<Rightarrow> Inr (v2_accuracy \<ge> v1_accuracy)))"

section \<open>Vocabulary of the statements\<close>

text \<open>The four arrays \<^verbatim>\<open>load_dataset\<close> assigns.\<close>

definition splits :: "'a SimplePipeline_scheme \<Rightarrow> matrix option \<times> matrix option \<times> labels option \<times> labels option" where
  "splits self = (X_train self, X_test self, y_train self, y_test self)"

text \<open>What the Iris bunch and the seeded generator provide: a rectangular array with one
  label per row and one name per column, at least three rows (fewer leave the training set
  empty at \<^verbatim>\<open>test_size=0.65\<close>), and permutations from \<^verbatim>\<open>RandomState.permutation\<close>.\<close>

definition well_formed :: "sklearn \<Rightarrow> bool" where
  "well_formed sk =
     (valid_permutation sk \<and>
      list_all (\<lambda>r. length r = length (ds_feature_names (load_iris sk))) (ds_data (load_iris sk)) \<and>
      length (ds_target (load_iris sk)) = length (ds_data (load_iris sk)) \<and>
      3 \<le> length (ds_data (load_iris sk)))"

text \<open>A six-row stand-in for the library objects, used to instantiate the theorems: the
  rows are not Iris values, a seeded generator draws the reversal, the module-level
  generator in state \<open>g\<close> draws the rotation by \<open>g\<close> places, and the classifier
  thresholds the first feature.\<close>

definition toy_iris :: dataset where
  "toy_iris =
     \<lparr>ds_data = [[1, 2, 3, 4], [3, 6, 9, 12], [5, 1, 4, 2], [2, 2, 2, 2], [0, 7, 1, 3], [4, 4, 0, 9]],
      ds_target = [0, 1, 2, 1, 0, 2],
      ds_feature_names = [''sepal length (cm)'', ''sepal width (cm)'',
                          ''petal length (cm)'', ''petal width (cm)'']\<rparr>"

definition toy_sklearn :: sklearn where
  "toy_sklearn =
     \<lparr>load_iris = toy_iris,
      permutation = (\<lambda>seed n. rev [0..<n]),
      np_random = 0,
      global_permutation = (\<lambda>g n. (rotate g [0..<n], Suc g)),
      LogisticRegression = (\<lambda>X y. Inr (\<lambda>r. if r ! 0 < 2 then 0 else 1))\<rparr>"

text \<open>An array with at least one row and \<open>d\<close> columns.\<close>

definition rectangular :: "nat \<Rightarrow> matrix \<Rightarrow> bool" where
  "rectangular d X = (X \<noteq> [] \<and> list_all (\<lambda>r. length r = d) X)"

text \<open>The methods of \<^verbatim>\<open>PipelineWithDataEngineering\<close> that change the object, and a
  sequence of such calls on one object.\<close>

datatype method_call = Load_dataset | Apply_scaler | Train | Run_pipeline

fun call :: "sklearn \<Rightarrow> method_call \<Rightarrow> PipelineWithDataEngineering \<Rightarrow> error + PipelineWithDataEngineering" where
  "call sk Load_dataset self = load_dataset sk self"
| "call sk Apply_scaler self = apply_scaler self"
| "call sk Train self = train (LogisticRegression sk) self"
| "call sk Run_pipeline self = PipelineWithDataEngineering_run_pipeline sk self"

fun calls :: "sklearn \<Rightarrow> method_call list \<Rightarrow> PipelineWithDataEngineering \<Rightarrow> error + PipelineWithDataEngineering" where
  "calls sk [] self = Inr self"
| "calls sk (c # cs) self = (case call sk c self of Inl e \<Rightarrow> Inl e | Inr self' \<Rightarrow> calls sk cs self')"

text \<open>The number of columns, and the four arrays a call of \<^verbatim>\<open>load_dataset\<close> assigns,
  as functions of the library objects.\<close>

definition n_features :: "sklearn \<Rightarrow> nat" where
  "n_features sk = length (ds_feature_names (load_iris sk))"

definition fresh_X_train :: "sklearn \<Rightarrow> matrix" where
  "fresh_X_train sk =
     map ((!) (ds_data (load_iris sk))) (ind_train sk (65 / 100) 42 (length (ds_data (load_iris sk))))"

definition fresh_X_test :: "sklearn \<Rightarrow> matrix" where
  "fresh_X_test sk =
     map ((!) (ds_data (load_iris sk))) (ind_test sk (65 / 100) 42 (length (ds_data (load_iris sk))))"

definition fresh_y_train :: "sklearn \<Rightarrow> labels" where
  "fresh_y_train sk =
     map ((!) (ds_target (load_iris sk))) (ind_train sk (65 / 100) 42 (length (ds_data (load_iris sk))))"

definition fresh_y_test :: "sklearn \<Rightarrow> labels" where
  "fresh_y_test sk =
     map ((!) (ds_target (load_iris sk))) (ind_test sk (65 / 100) 42 (length (ds_data (load_iris sk))))"

text \<open>A scaling pipeline whose stored splits have the shape the fitted scaler expects.\<close>

definition ready :: "sklearn \<Rightarrow> PipelineWithDataEngineering \<Rightarrow> bool" where
  "ready sk p =
     (length (sc_mean (scaler p)) = n_features sk \<and>
      (\<exists>Xtr Xte ytr. X_train p = Some Xtr \<and> X_test p = Some Xte \<and> y_train p = Some ytr \<and>
         rectangular (n_features sk) Xtr \<and> rectangular (n_features sk) Xte \<and>
         length ytr = length Xtr))"

text \<open>An algorithm whose \<^verbatim>\<open>fit\<close> does not raise on a non-empty array with one label per
  row.\<close>

definition total_algorithm :: "algorithm \<Rightarrow> bool" where
  "total_algorithm alg = (\<forall>X y. X \<noteq> [] \<and> length y = length X \<longrightarrow> (\<exists>m. alg X y = Inr m))"

text \<open>The fraction of rows of \<open>X\<close> whose prediction is the label at the same position.\<close>

definition correct_fraction :: "classifier \<Rightarrow> matrix \<Rightarrow> labels \<Rightarrow> real" where
  "correct_fraction m X y =
     real (length (filter (\<lambda>i. m (X ! i) = y ! i) [0..<length y])) / real (length y)"

text \<open>The unittest runner: \<^verbatim>\<open>setUp\<close>, then the test method.\<close>

definition run_test :: "(TestIrisPredictions \<Rightarrow> error + 'a) \<Rightarrow> sklearn \<Rightarrow> error + 'a" where
  "run_test test sk =
     (case TestIrisPredictions_setUp sk of
        Inl e \<Rightarrow> Inl e
      | Inr t \<Rightarrow> test t)"

text \<open>The spec's baseline: the number of rows of the most common class.\<close>

definition most_common_count :: "labels \<Rightarrow> nat" where
  "most_common_count y = foldr max (map (count_list y) y) 0"

text \<open>Library objects with the shape of Iris (150 rows, 4 features, classes 0, 1, 2 with 50
  rows each, in this order); the feature values are not those of Iris.\<close>

definition iris_like :: dataset where
  "iris_like =
     \<lparr>ds_data = map (\<lambda>i. [real i, 1, 2, 3]) [0..<150],
      ds_target = replicate 50 0 @ replicate 50 1 @ replicate 50 2,
      ds_feature_names = [''sepal length (cm)'', ''sepal width (cm)'',
                          ''petal length (cm)'', ''petal width (cm)'']\<rparr>"

definition iris_like_sklearn :: sklearn where
  "iris_like_sklearn =
     \<lparr>load_iris = iris_like,
      permutation = (\<lambda>seed n. rev [0..<n]),
      np_random = 0,
      global_permutation = (\<lambda>g n. (rotate g [0..<n], Suc g)),
      LogisticRegression = (\<lambda>X y. Inr (\<lambda>r. if r ! 0 < 50 then 0 else 1))\<rparr>"

text \<open>The shape of the dataset the notebooks load.\<close>

definition iris_shaped :: "sklearn \<Rightarrow> bool" where
  "iris_shaped sk =
     (well_formed sk \<and> length (ds_data (load_iris sk)) = 150 \<and> n_features sk = 4 \<and>
      set (ds_target (load_iris sk)) = {0, 1, 2})"


section \<open>The split\<close>

lemma n_test_of_65: "n_test_of (65 / 100) n = (65 * n + 99) div 100"
proof -
  have "(65 / 100 :: rat) * of_nat n = of_int (65 * int n) / of_int 100"
    by simp
  then have "\<lceil>(65 / 100 :: rat) * of_nat n\<rceil> = - ((- (65 * int n)) div 100)"
    by (simp only: ceiling_divide_eq_div)
  also have "\<dots> = (65 * int n + 99) div 100"
    by linarith
  finally show ?thesis
    unfolding n_test_of_def by (simp add: nat_div_distrib nat_add_distrib nat_mult_distrib)
qed

lemma n_test_le: "n_test_of (65 / 100) n \<le> n"
  unfolding n_test_of_65 by linarith

lemma n_train_pos: "3 \<le> n \<Longrightarrow> 0 < n - n_test_of (65 / 100) n"
  unfolding n_test_of_65 by linarith

lemma n_test_pos: "0 < n \<Longrightarrow> 0 < n_test_of (65 / 100) n"
  unfolding n_test_of_65 by linarith

lemma valid_toy: "valid_permutation toy_sklearn"
  by (simp add: valid_permutation_def toy_sklearn_def)

lemma well_formed_toy: "well_formed toy_sklearn"
  by (simp add: well_formed_def valid_toy) (simp add: toy_sklearn_def toy_iris_def)

lemma load_dataset_eq:
  assumes "well_formed sk"
  shows "load_dataset sk self =
     Inr (self\<lparr>frame := Some \<lparr>df_columns = map (\<lambda>fn. take (length fn - 5) fn) (ds_feature_names (load_iris sk)),
                             df_values = ds_data (load_iris sk),
                             df_target = ds_target (load_iris sk)\<rparr>,
               feature_names := map (\<lambda>fn. take (length fn - 5) fn) (ds_feature_names (load_iris sk)),
               X_train := Some (map ((!) (ds_data (load_iris sk)))
                                  (ind_train sk (65 / 100) 42 (length (ds_data (load_iris sk))))),
               X_test := Some (map ((!) (ds_data (load_iris sk)))
                                  (ind_test sk (65 / 100) 42 (length (ds_data (load_iris sk))))),
               y_train := Some (map ((!) (ds_target (load_iris sk)))
                                  (ind_train sk (65 / 100) 42 (length (ds_data (load_iris sk))))),
               y_test := Some (map ((!) (ds_target (load_iris sk)))
                                  (ind_test sk (65 / 100) 42 (length (ds_data (load_iris sk)))))\<rparr>)"
  using assms n_train_pos[of "length (ds_data (load_iris sk))"]
  by (simp add: load_dataset_def train_test_split_def well_formed_def Let_def)

text \<open>
  Claim C2. \<^verbatim>\<open>load_dataset\<close> is deterministic because it passes the seed 42: whatever
  object it is called on (a fresh instance, another instance, the same instance again, of
  either class) and whatever the state of numpy's module-level generator at the time of
  the call, it raises the same error or assigns the same \<^verbatim>\<open>X_train\<close>, \<^verbatim>\<open>X_test\<close>,
  \<^verbatim>\<open>y_train\<close> and \<^verbatim>\<open>y_test\<close>, namely the rows at the indices the generator seeded with 42
  draws; and its split leaves the module-level generator in the state it found.
\<close>

theorem load_dataset_deterministic:
  "map_sum id splits (load_dataset (sk\<lparr>np_random := g1\<rparr>) s1) =
     map_sum id splits (load_dataset (sk\<lparr>np_random := g2\<rparr>) s2) \<and>
   train_test_split (sk\<lparr>np_random := g1\<rparr>) X y test_size (Some seed) =
     train_test_split (sk\<lparr>np_random := g2\<rparr>) X y test_size (Some seed) \<and>
   np_random_after_split (sk\<lparr>np_random := g1\<rparr>) (Some seed) n = g1"
proof -
  have ind: "ind_train (sk\<lparr>np_random := g\<rparr>) ts sd k = ind_train sk ts sd k"
    "ind_test (sk\<lparr>np_random := g\<rparr>) ts sd k = ind_test sk ts sd k" for g ts sd k
    by (simp_all add: ind_train_def ind_test_def)
  have tts: "train_test_split (sk\<lparr>np_random := g\<rparr>) X' y' ts (Some sd) =
             train_test_split sk X' y' ts (Some sd)" for g X' y' ts sd
    by (simp add: train_test_split_def Let_def ind)
  have ld1: "map_sum id splits (load_dataset (sk\<lparr>np_random := g1\<rparr>) s1) =
        map_sum id splits (load_dataset sk s2)"
    unfolding load_dataset_def Let_def tts
    by (simp add: splits_def split: sum.splits prod.splits)
  have ld2: "map_sum id splits (load_dataset (sk\<lparr>np_random := g2\<rparr>) s2) =
        map_sum id splits (load_dataset sk s2)"
    unfolding load_dataset_def Let_def tts
    by (simp add: splits_def split: sum.splits prod.splits)
  have "map_sum id splits (load_dataset (sk\<lparr>np_random := g1\<rparr>) s1) =
     map_sum id splits (load_dataset (sk\<lparr>np_random := g2\<rparr>) s2)"
    unfolding ld1 ld2 ..
  then show ?thesis
    by (simp add: tts np_random_after_split_def)
qed

lemma perm_length: "valid_permutation sk \<Longrightarrow> length (permutation sk seed n) = n"
  unfolding valid_permutation_def by (metis size_mset length_upt diff_zero)

lemma perm_set: "valid_permutation sk \<Longrightarrow> set (permutation sk seed n) = {0..<n}"
  unfolding valid_permutation_def by (metis set_mset_mset set_upt)

lemma perm_distinct: "valid_permutation sk \<Longrightarrow> distinct (permutation sk seed n)"
  unfolding valid_permutation_def by (metis distinct_upt mset_eq_imp_distinct_iff)

lemma ind_train_eq_drop:
  "valid_permutation sk \<Longrightarrow>
   ind_train sk ts seed n = drop (n_test_of ts n) (permutation sk seed n)"
  by (simp add: ind_train_def perm_length)

lemma perm_split:
  "valid_permutation sk \<Longrightarrow> ind_test sk ts seed n @ ind_train sk ts seed n = permutation sk seed n"
  by (simp add: ind_train_eq_drop ind_test_def)

lemma length_ind_test:
  "valid_permutation sk \<Longrightarrow> length (ind_test sk ts seed n) = min n (n_test_of ts n)"
  by (simp add: ind_test_def perm_length)

lemma length_ind_train:
  "valid_permutation sk \<Longrightarrow> length (ind_train sk ts seed n) = n - n_test_of ts n"
  by (simp add: ind_train_eq_drop perm_length)

lemma ind_train_bound:
  "valid_permutation sk \<Longrightarrow> i \<in> set (ind_train sk ts seed n) \<Longrightarrow> i < n"
  using perm_set[of sk seed n] perm_split[of sk ts seed n]
  by (metis Un_iff atLeastLessThan_iff set_append)

lemma ind_test_bound:
  "valid_permutation sk \<Longrightarrow> i \<in> set (ind_test sk ts seed n) \<Longrightarrow> i < n"
  using perm_set[of sk seed n] perm_split[of sk ts seed n]
  by (metis Un_iff atLeastLessThan_iff set_append)

lemma rectangular_select:
  assumes "list_all (\<lambda>r. length r = d) X" and "\<And>i. i \<in> set idx \<Longrightarrow> i < length X" and "idx \<noteq> []"
  shows "rectangular d (map ((!) X) idx)"
  using assms by (auto simp: rectangular_def list_all_iff)

lemma fit_rectangular:
  assumes "rectangular d X"
  shows "fit X = Inr \<lparr>sc_mean = map (\<lambda>j. mean (column j X)) [0..<d],
                      sc_scale = map (\<lambda>j. handle_zeros_in_scale (std (column j X))) [0..<d]\<rparr>"
  using assms by (cases X) (auto simp: fit_def rectangular_def)

lemma transform_rectangular:
  assumes "rectangular (length (sc_mean sc)) X"
  shows "transform sc X =
           Inr (map (\<lambda>r. map (\<lambda>j. (r ! j - sc_mean sc ! j) / sc_scale sc ! j) [0..<length (sc_mean sc)]) X)"
  using assms by (auto simp: transform_def rectangular_def list_all_iff)

lemma transform_keeps_shape:
  assumes "transform sc X = Inr X'"
  shows "rectangular (length (sc_mean sc)) X \<and> rectangular (length (sc_mean sc)) X' \<and> length X' = length X"
  using assms by (auto simp: transform_def rectangular_def list_all_iff split: if_splits)

section \<open>The scaler is fitted once\<close>

lemma load_dataset_scaler:
  "load_dataset sk self = Inr self' \<Longrightarrow> scaler self' = scaler self"
  by (auto simp: load_dataset_def Let_def split: if_splits sum.splits prod.splits)

lemma train_scaler: "train alg self = Inr self' \<Longrightarrow> scaler self' = scaler self"
  by (auto simp: train_def split: option.splits sum.splits)

lemma apply_scaler_scaler: "apply_scaler self = Inr self' \<Longrightarrow> scaler self' = scaler self"
  by (auto simp: apply_scaler_def split: option.splits sum.splits)

lemma run_pipeline_scaler:
  "PipelineWithDataEngineering_run_pipeline sk self = Inr self' \<Longrightarrow> scaler self' = scaler self"
  by (auto simp: PipelineWithDataEngineering_run_pipeline_def split: sum.splits
      dest!: load_dataset_scaler train_scaler apply_scaler_scaler)

lemma call_scaler: "call sk c self = Inr self' \<Longrightarrow> scaler self' = scaler self"
  by (cases c) (auto dest: load_dataset_scaler train_scaler apply_scaler_scaler run_pipeline_scaler)

lemma calls_scaler: "calls sk cs self = Inr self' \<Longrightarrow> scaler self' = scaler self"
proof (induction cs arbitrary: self)
  case Nil
  then show ?case by simp
next
  case (Cons c cs)
  then obtain s1 where s1: "call sk c self = Inr s1" and rest: "calls sk cs s1 = Inr self'"
    by (auto split: sum.splits)
  from Cons.IH[OF rest] call_scaler[OF s1] show ?case by simp
qed

lemma init_fitted:
  assumes "PipelineWithDataEngineering_init sk = Inr p0"
  shows "\<exists>q X. SimplePipeline_init sk = Inr q \<and> X_train q = Some X \<and> X_train p0 = Some X \<and>
               fit X = Inr (scaler p0)"
  using assms
  by (auto simp: PipelineWithDataEngineering_init_def SimplePipeline.extend_def
      PipelineWithDataEngineering.fields_def split: sum.splits option.splits)

lemma apply_scaler_uses:
  assumes "apply_scaler self = Inr self'"
  shows "\<exists>Xtr Xte Xtr' Xte'.
           X_train self = Some Xtr \<and> X_test self = Some Xte \<and>
           transform (scaler self) Xtr = Inr Xtr' \<and> transform (scaler self) Xte = Inr Xte' \<and>
           X_train self' = Some Xtr' \<and> X_test self' = Some Xte'"
  using assms by (auto simp: apply_scaler_def split: option.splits sum.splits)

lemma predict_uses:
  assumes "PipelineWithDataEngineering_predict self input_data = Inr out"
  shows "\<exists>scaled m. transform (scaler self) input_data = Inr scaled \<and> model self = Some m \<and>
           out = map m scaled"
  using assms
  by (auto simp: PipelineWithDataEngineering_predict_def classifier_predict_def
      split: option.splits sum.splits if_splits)

lemma predict_returns:
  assumes "transform (scaler self) input_data = Inr scaled" and "model self = Some m"
  shows "PipelineWithDataEngineering_predict self input_data = Inr (map m scaled)"
proof -
  have "scaled \<noteq> []"
    using transform_keeps_shape[OF assms(1)] by (simp add: rectangular_def)
  then show ?thesis
    using assms by (simp add: PipelineWithDataEngineering_predict_def classifier_predict_def)
qed

lemma predict_raises:
  assumes "transform (scaler self) input_data = Inl e"
  shows "PipelineWithDataEngineering_predict self input_data = Inl e"
  using assms by (simp add: PipelineWithDataEngineering_predict_def)

lemma apply_scaler_returns:
  assumes "X_train self = Some Xtr" and "X_test self = Some Xte"
    and "transform (scaler self) Xtr = Inr Xtr'" and "transform (scaler self) Xte = Inr Xte'"
  shows "apply_scaler self = Inr (self\<lparr>X_train := Some Xtr', X_test := Some Xte'\<rparr>)"
  using assms by (simp add: apply_scaler_def)

text \<open>
  Claim C1. In \<^verbatim>\<open>PipelineWithDataEngineering\<close> the scaler is fitted at construction, on
  the training split of that moment, and never again: after any sequence of
  \<^verbatim>\<open>load_dataset\<close>, \<^verbatim>\<open>apply_scaler\<close>, \<^verbatim>\<open>train\<close> and \<^verbatim>\<open>run_pipeline\<close> calls the
  object holds the scaler of the constructor, \<^verbatim>\<open>apply_scaler\<close> replaces the stored train
  and test arrays by their transforms under that scaler, and the overridden
  \<^verbatim>\<open>predict\<close> transforms its input with it before the classifier sees it: on a trained
  object it returns the classifier's labels of the transformed rows whenever the
  transform under the constructor's scaler accepts the input, and raises what that
  transform raises otherwise.
\<close>

theorem scaler_fit_once:
  assumes "PipelineWithDataEngineering_init sk = Inr p0" and "calls sk cs p0 = Inr p"
  shows "(\<exists>q X. SimplePipeline_init sk = Inr q \<and> X_train q = Some X \<and> fit X = Inr (scaler p0)) \<and>
         scaler p = scaler p0 \<and>
         (\<forall>p'. apply_scaler p = Inr p' \<longrightarrow>
            (\<exists>Xtr Xte Xtr' Xte'.
               X_train p = Some Xtr \<and> X_test p = Some Xte \<and>
               transform (scaler p0) Xtr = Inr Xtr' \<and> transform (scaler p0) Xte = Inr Xte' \<and>
               X_train p' = Some Xtr' \<and> X_test p' = Some Xte' \<and> scaler p' = scaler p0)) \<and>
         (\<forall>input_data out. PipelineWithDataEngineering_predict p input_data = Inr out \<longrightarrow>
            (\<exists>scaled m. transform (scaler p0) input_data = Inr scaled \<and> model p = Some m \<and>
               out = map m scaled)) \<and>
         (\<forall>Xtr Xte Xtr' Xte'.
            X_train p = Some Xtr \<and> X_test p = Some Xte \<and>
            transform (scaler p0) Xtr = Inr Xtr' \<and> transform (scaler p0) Xte = Inr Xte' \<longrightarrow>
            apply_scaler p = Inr (p\<lparr>X_train := Some Xtr', X_test := Some Xte'\<rparr>)) \<and>
         (\<forall>input_data scaled m.
            transform (scaler p0) input_data = Inr scaled \<and> model p = Some m \<longrightarrow>
            PipelineWithDataEngineering_predict p input_data = Inr (map m scaled)) \<and>
         (\<forall>input_data e.
            transform (scaler p0) input_data = Inl e \<longrightarrow>
            PipelineWithDataEngineering_predict p input_data = Inl e)"
proof -
  have same: "scaler p = scaler p0"
    using calls_scaler[OF assms(2)] .
  have fitted: "\<exists>q X. SimplePipeline_init sk = Inr q \<and> X_train q = Some X \<and> fit X = Inr (scaler p0)"
    using init_fitted[OF assms(1)] by blast
  have app: "\<exists>Xtr Xte Xtr' Xte'.
               X_train p = Some Xtr \<and> X_test p = Some Xte \<and>
               transform (scaler p0) Xtr = Inr Xtr' \<and> transform (scaler p0) Xte = Inr Xte' \<and>
               X_train p' = Some Xtr' \<and> X_test p' = Some Xte' \<and> scaler p' = scaler p0"
    if a: "apply_scaler p = Inr p'" for p'
    using apply_scaler_uses[OF a] apply_scaler_scaler[OF a] unfolding same by simp
  have pred: "\<exists>scaled m. transform (scaler p0) input_data = Inr scaled \<and> model p = Some m \<and>
               out = map m scaled"
    if b: "PipelineWithDataEngineering_predict p input_data = Inr out" for input_data out
    using predict_uses[OF b] unfolding same .
  have app_total: "apply_scaler p = Inr (p\<lparr>X_train := Some Xtr', X_test := Some Xte'\<rparr>)"
    if "X_train p = Some Xtr \<and> X_test p = Some Xte \<and>
        transform (scaler p0) Xtr = Inr Xtr' \<and> transform (scaler p0) Xte = Inr Xte'"
    for Xtr Xte Xtr' Xte'
    using that apply_scaler_returns[of p Xtr Xte Xtr' Xte'] unfolding same by blast
  have pred_total: "PipelineWithDataEngineering_predict p input_data = Inr (map m scaled)"
    if "transform (scaler p0) input_data = Inr scaled \<and> model p = Some m" for input_data scaled m
    using that predict_returns[of p input_data scaled m] unfolding same by blast
  have pred_raises: "PipelineWithDataEngineering_predict p input_data = Inl e"
    if "transform (scaler p0) input_data = Inl e" for input_data e
    using that predict_raises[of p input_data e] unfolding same by blast
  show ?thesis
    using fitted same app pred app_total pred_total pred_raises by (intro conjI allI impI)
qed

section \<open>The pipelines run to completion\<close>

lemma load_dataset_fresh:
  assumes "well_formed sk"
  shows "\<exists>self'. load_dataset sk self = Inr self' \<and>
           X_train self' = Some (fresh_X_train sk) \<and> X_test self' = Some (fresh_X_test sk) \<and>
           y_train self' = Some (fresh_y_train sk) \<and> y_test self' = Some (fresh_y_test sk) \<and>
           model self' = model self \<and> SimplePipeline.more self' = SimplePipeline.more self"
  unfolding load_dataset_eq[OF assms]
  by (simp add: fresh_X_train_def fresh_X_test_def fresh_y_train_def fresh_y_test_def)

lemma fresh_X_train_rect:
  assumes "well_formed sk"
  shows "rectangular (n_features sk) (fresh_X_train sk)"
proof -
  let ?n = "length (ds_data (load_iris sk))"
  have vp: "valid_permutation sk" and n3: "3 \<le> ?n"
    and rows: "list_all (\<lambda>r. length r = n_features sk) (ds_data (load_iris sk))"
    using assms by (simp_all add: well_formed_def n_features_def)
  have "length (ind_train sk (65 / 100) 42 ?n) > 0"
    using length_ind_train[OF vp] n_train_pos[OF n3] by simp
  then have ne: "ind_train sk (65 / 100) 42 ?n \<noteq> []" by auto
  show ?thesis
    unfolding fresh_X_train_def
    by (rule rectangular_select[OF rows _ ne]) (rule ind_train_bound[OF vp])
qed

lemma fresh_X_test_rect:
  assumes "well_formed sk"
  shows "rectangular (n_features sk) (fresh_X_test sk)"
proof -
  let ?n = "length (ds_data (load_iris sk))"
  have vp: "valid_permutation sk" and n3: "3 \<le> ?n"
    and rows: "list_all (\<lambda>r. length r = n_features sk) (ds_data (load_iris sk))"
    using assms by (simp_all add: well_formed_def n_features_def)
  have npos: "0 < ?n" using n3 by linarith
  then have "0 < n_test_of (65 / 100) ?n" by (rule n_test_pos)
  then have "length (ind_test sk (65 / 100) 42 ?n) > 0"
    using length_ind_test[OF vp, of "65 / 100" 42 ?n] npos by linarith
  then have ne: "ind_test sk (65 / 100) 42 ?n \<noteq> []" by auto
  show ?thesis
    unfolding fresh_X_test_def
    by (rule rectangular_select[OF rows _ ne]) (rule ind_test_bound[OF vp])
qed

lemma length_fresh:
  assumes "well_formed sk"
  shows "length (fresh_X_test sk) = length (fresh_y_test sk)"
    and "length (fresh_X_train sk) = length (fresh_y_train sk)"
  by (simp_all add: fresh_X_test_def fresh_y_test_def fresh_X_train_def fresh_y_train_def)

lemma SimplePipeline_init_fresh:
  assumes "well_formed sk"
  shows "\<exists>q. SimplePipeline_init sk = Inr q \<and>
           X_train q = Some (fresh_X_train sk) \<and> X_test q = Some (fresh_X_test sk) \<and>
           y_train q = Some (fresh_y_train sk) \<and> y_test q = Some (fresh_y_test sk) \<and>
           model q = None"
proof -
  let ?blank = "\<lparr>frame = None, feature_names = [], X_train = None, X_test = None,
                 y_train = None, y_test = None, Y_test = None, model = None\<rparr>"
  obtain q where "load_dataset sk ?blank = Inr q"
    "X_train q = Some (fresh_X_train sk)" "X_test q = Some (fresh_X_test sk)"
    "y_train q = Some (fresh_y_train sk)" "y_test q = Some (fresh_y_test sk)"
    "model q = model ?blank"
    using load_dataset_fresh[OF assms, of ?blank] by blast
  then show ?thesis
    unfolding SimplePipeline_init_def by simp
qed

lemma init_succeeds:
  assumes "well_formed sk"
  shows "\<exists>p0. PipelineWithDataEngineering_init sk = Inr p0 \<and> ready sk p0 \<and>
           X_train p0 = Some (fresh_X_train sk) \<and> X_test p0 = Some (fresh_X_test sk) \<and>
           y_train p0 = Some (fresh_y_train sk) \<and> y_test p0 = Some (fresh_y_test sk) \<and>
           fit (fresh_X_train sk) = Inr (scaler p0)"
proof -
  obtain q where q: "SimplePipeline_init sk = Inr q"
    "X_train q = Some (fresh_X_train sk)" "X_test q = Some (fresh_X_test sk)"
    "y_train q = Some (fresh_y_train sk)" "y_test q = Some (fresh_y_test sk)"
    using SimplePipeline_init_fresh[OF assms] by blast
  note f = fit_rectangular[OF fresh_X_train_rect[OF assms]]
  show ?thesis
    using q f fresh_X_train_rect[OF assms] fresh_X_test_rect[OF assms] length_fresh(2)[OF assms]
    by (simp add: PipelineWithDataEngineering_init_def ready_def SimplePipeline.extend_def
        PipelineWithDataEngineering.fields_def)
qed

lemma load_dataset_ready:
  assumes "well_formed sk" and "ready sk p"
  shows "\<exists>p'. load_dataset sk p = Inr p' \<and> ready sk p'"
proof -
  obtain p' where p': "load_dataset sk p = Inr p'"
    "X_train p' = Some (fresh_X_train sk)" "X_test p' = Some (fresh_X_test sk)"
    "y_train p' = Some (fresh_y_train sk)"
    using load_dataset_fresh[OF assms(1)] by blast
  have "scaler p' = scaler p" using load_dataset_scaler[OF p'(1)] .
  then have "ready sk p'"
    using assms(2) p' fresh_X_train_rect[OF assms(1)] fresh_X_test_rect[OF assms(1)]
      length_fresh(2)[OF assms(1)]
    by (simp add: ready_def)
  with p'(1) show ?thesis by blast
qed

lemma apply_scaler_ready:
  assumes "ready sk p"
  shows "\<exists>p'. apply_scaler p = Inr p' \<and> ready sk p'"
proof -
  obtain Xtr Xte ytr where s: "X_train p = Some Xtr" "X_test p = Some Xte" "y_train p = Some ytr"
    "rectangular (length (sc_mean (scaler p))) Xtr" "rectangular (length (sc_mean (scaler p))) Xte"
    "length ytr = length Xtr"
    using assms by (auto simp: ready_def)
  obtain Xtr' where tr: "transform (scaler p) Xtr = Inr Xtr'"
    using transform_rectangular[OF s(4)] by blast
  obtain Xte' where te: "transform (scaler p) Xte = Inr Xte'"
    using transform_rectangular[OF s(5)] by blast
  have eq: "apply_scaler p = Inr (p\<lparr>X_train := Some Xtr', X_test := Some Xte'\<rparr>)"
    using s tr te by (simp add: apply_scaler_def)
  have "ready sk (p\<lparr>X_train := Some Xtr', X_test := Some Xte'\<rparr>)"
    using assms s transform_keeps_shape[OF tr] transform_keeps_shape[OF te]
    by (simp add: ready_def)
  with eq show ?thesis by blast
qed

lemma train_ready:
  assumes "total_algorithm alg" and "ready sk p"
  shows "\<exists>p'. train alg p = Inr p' \<and> ready sk p' \<and> model p' \<noteq> None"
proof -
  obtain Xtr ytr where s: "X_train p = Some Xtr" "y_train p = Some ytr"
    "Xtr \<noteq> []" "length ytr = length Xtr"
    using assms(2) by (auto simp: ready_def rectangular_def)
  obtain m where m: "alg Xtr ytr = Inr m"
    using assms(1) s(3,4) unfolding total_algorithm_def by blast
  have eq: "train alg p = Inr (p\<lparr>model := Some m\<rparr>)"
    using s m by (simp add: train_def)
  have "ready sk (p\<lparr>model := Some m\<rparr>)" using assms(2) by (simp add: ready_def)
  with eq show ?thesis by auto
qed

lemma run_pipeline_ready:
  assumes "well_formed sk" and "total_algorithm (LogisticRegression sk)" and "ready sk p"
  shows "\<exists>p'. PipelineWithDataEngineering_run_pipeline sk p = Inr p' \<and> ready sk p' \<and> model p' \<noteq> None"
proof -
  obtain p1 where p1: "load_dataset sk p = Inr p1" "ready sk p1"
    using load_dataset_ready[OF assms(1,3)] by blast
  obtain p2 where p2: "apply_scaler p1 = Inr p2" "ready sk p2"
    using apply_scaler_ready[OF p1(2)] by blast
  obtain p3 where p3: "train (LogisticRegression sk) p2 = Inr p3" "ready sk p3" "model p3 \<noteq> None"
    using train_ready[OF assms(2) p2(2)] by blast
  show ?thesis
    using p1 p2 p3 by (simp add: PipelineWithDataEngineering_run_pipeline_def)
qed

lemma call_ready:
  assumes "well_formed sk" and "total_algorithm (LogisticRegression sk)" and "ready sk p"
  shows "\<exists>p'. call sk c p = Inr p' \<and> ready sk p'"
proof (cases c)
  case Load_dataset
  then show ?thesis using load_dataset_ready[OF assms(1,3)] by simp
next
  case Apply_scaler
  then show ?thesis using apply_scaler_ready[OF assms(3)] by simp
next
  case Train
  then show ?thesis using train_ready[OF assms(2,3)] by auto
next
  case Run_pipeline
  then show ?thesis using run_pipeline_ready[OF assms] by auto
qed

lemma calls_ready:
  assumes "well_formed sk" and "total_algorithm (LogisticRegression sk)" and "ready sk p"
  shows "\<exists>p'. calls sk cs p = Inr p' \<and> ready sk p'"
  using assms(3)
proof (induction cs arbitrary: p)
  case Nil
  then show ?case by simp
next
  case (Cons c cs)
  obtain p1 where p1: "call sk c p = Inr p1" "ready sk p1"
    using call_ready[OF assms(1,2) Cons.prems] by blast
  from Cons.IH[OF p1(2)] p1(1) show ?case by simp
qed

lemma total_toy: "total_algorithm (LogisticRegression toy_sklearn)"
  by (simp add: total_algorithm_def toy_sklearn_def)

section \<open>What \<^verbatim>\<open>load_dataset\<close> and \<^verbatim>\<open>run_pipeline\<close> store\<close>

lemma train_test_split_Inr:
  assumes "train_test_split sk X y ts (Some seed) = Inr (Xtr, Xte, ytr, yte)"
  shows "Xtr = map ((!) X) (ind_train sk ts seed (length X))"
    and "Xte = map ((!) X) (ind_test sk ts seed (length X))"
    and "ytr = map ((!) y) (ind_train sk ts seed (length X))"
    and "yte = map ((!) y) (ind_test sk ts seed (length X))"
    and "length y = length X"
  using assms unfolding train_test_split_def Let_def by (simp_all split: if_splits)

lemma load_dataset_Inr:
  assumes "load_dataset sk self = Inr self'"
  shows "X_train self' = Some (fresh_X_train sk)" and "X_test self' = Some (fresh_X_test sk)"
    and "y_train self' = Some (fresh_y_train sk)" and "y_test self' = Some (fresh_y_test sk)"
    and "model self' = model self" and "SimplePipeline.more self' = SimplePipeline.more self"
proof -
  obtain Xtr Xte ytr yte where
    tts: "train_test_split sk (ds_data (load_iris sk)) (ds_target (load_iris sk)) (65 / 100) (Some 42) =
            Inr (Xtr, Xte, ytr, yte)"
    and f: "X_train self' = Some Xtr" "X_test self' = Some Xte" "y_train self' = Some ytr"
      "y_test self' = Some yte" "model self' = model self"
      "SimplePipeline.more self' = SimplePipeline.more self"
    using assms unfolding load_dataset_def Let_def
    by (auto split: if_splits sum.splits prod.splits)
  note t = train_test_split_Inr[OF tts]
  show "X_train self' = Some (fresh_X_train sk)" unfolding fresh_X_train_def f(1) t(1) ..
  show "X_test self' = Some (fresh_X_test sk)" unfolding fresh_X_test_def f(2) t(2) ..
  show "y_train self' = Some (fresh_y_train sk)" unfolding fresh_y_train_def f(3) t(3) ..
  show "y_test self' = Some (fresh_y_test sk)" unfolding fresh_y_test_def f(4) t(4) ..
  show "model self' = model self" by (rule f(5))
  show "SimplePipeline.more self' = SimplePipeline.more self" by (rule f(6))
qed

lemma train_Inr:
  assumes "train alg self = Inr self'"
  shows "\<exists>X y m. X_train self = Some X \<and> y_train self = Some y \<and> alg X y = Inr m \<and>
           self' = self\<lparr>model := Some m\<rparr>"
  using assms by (auto simp: train_def split: option.splits sum.splits)

lemma run_pipeline_Inr:
  assumes "run_pipeline sk self = Inr self'"
  shows "\<exists>m. LogisticRegression sk (fresh_X_train sk) (fresh_y_train sk) = Inr m \<and>
           model self' = Some m \<and>
           X_train self' = Some (fresh_X_train sk) \<and> X_test self' = Some (fresh_X_test sk) \<and>
           y_train self' = Some (fresh_y_train sk) \<and> y_test self' = Some (fresh_y_test sk)"
proof -
  obtain s1 where s1: "load_dataset sk self = Inr s1" and t: "train (LogisticRegression sk) s1 = Inr self'"
    using assms by (auto simp: run_pipeline_def split: sum.splits)
  obtain m where m: "LogisticRegression sk (fresh_X_train sk) (fresh_y_train sk) = Inr m"
    "self' = s1\<lparr>model := Some m\<rparr>"
    using train_Inr[OF t] load_dataset_Inr(1,3)[OF s1] by auto
  show ?thesis
    using m load_dataset_Inr(1-4)[OF s1] by simp
qed

lemma PipelineWithDataEngineering_run_pipeline_Inr:
  assumes "PipelineWithDataEngineering_run_pipeline sk self = Inr self'"
  shows "\<exists>Xtr Xte m. transform (scaler self) (fresh_X_train sk) = Inr Xtr \<and>
           transform (scaler self) (fresh_X_test sk) = Inr Xte \<and>
           LogisticRegression sk Xtr (fresh_y_train sk) = Inr m \<and>
           model self' = Some m \<and> scaler self' = scaler self \<and>
           X_train self' = Some Xtr \<and> X_test self' = Some Xte \<and>
           y_train self' = Some (fresh_y_train sk) \<and> y_test self' = Some (fresh_y_test sk)"
proof -
  obtain s1 s2 where s1: "load_dataset sk self = Inr s1" and s2: "apply_scaler s1 = Inr s2"
    and t: "train (LogisticRegression sk) s2 = Inr self'"
    using assms by (auto simp: PipelineWithDataEngineering_run_pipeline_def split: sum.splits)
  have sc: "scaler s1 = scaler self" using load_dataset_scaler[OF s1] .
  have y: "y_train s2 = y_train s1" "y_test s2 = y_test s1" "scaler s2 = scaler s1"
    using s2 by (auto simp: apply_scaler_def split: option.splits sum.splits)
  obtain Xtr Xte where a: "transform (scaler s1) (fresh_X_train sk) = Inr Xtr"
    "transform (scaler s1) (fresh_X_test sk) = Inr Xte" "X_train s2 = Some Xtr" "X_test s2 = Some Xte"
    using apply_scaler_uses[OF s2] load_dataset_Inr(1,2)[OF s1] by auto
  have ytr: "y_train s2 = Some (fresh_y_train sk)" and yte: "y_test s2 = Some (fresh_y_test sk)"
    using y load_dataset_Inr(3,4)[OF s1] by simp_all
  obtain m where m: "LogisticRegression sk Xtr (fresh_y_train sk) = Inr m" "self' = s2\<lparr>model := Some m\<rparr>"
    using train_Inr[OF t] a(3) ytr by auto
  show ?thesis
    using a m ytr yte y(3) sc by simp
qed

section \<open>Accuracy\<close>

lemma filter_zip_count:
  assumes "length xs = length ys"
  shows "length (filter (\<lambda>(t, p). t = p) (zip xs ys)) =
         length (filter (\<lambda>i. ys ! i = xs ! i) [0..<length xs])"
proof -
  have "{i. i < length (zip xs ys) \<and> (case zip xs ys ! i of (t, p) \<Rightarrow> t = p)} =
        {i. i < length [0..<length xs] \<and> ys ! ([0..<length xs] ! i) = xs ! ([0..<length xs] ! i)}"
    using assms by auto
  then show ?thesis
    by (simp only: length_filter_conv_card)
qed

lemma score_eq:
  assumes "length X = length y" and "y \<noteq> []"
  shows "score m X y = Inr (correct_fraction m X y)"
proof -
  have "filter (\<lambda>i. map m X ! i = y ! i) [0..<length y] = filter (\<lambda>i. m (X ! i) = y ! i) [0..<length y]"
    using assms(1) by (intro filter_cong) auto
  then show ?thesis
    using assms filter_zip_count[of y "map m X"]
    by (auto simp: score_def classifier_predict_def accuracy_score_def correct_fraction_def)
qed

lemma correct_fraction_bounds: "0 \<le> correct_fraction m X y \<and> correct_fraction m X y \<le> 1"
proof -
  have "length (filter (\<lambda>i. m (X ! i) = y ! i) [0..<length y]) \<le> length y"
    using length_filter_le[of _ "[0..<length y]"] by simp
  then show ?thesis
    by (cases "length y = 0") (simp_all add: correct_fraction_def divide_le_eq)
qed

lemma get_accuracy_eq:
  assumes "model self = Some m" and "X_test self = Some X" and "y_test self = Some y"
    and "length X = length y" and "y \<noteq> []"
  shows "get_accuracy self = Inr (correct_fraction m X y)"
  using assms by (simp add: get_accuracy_def score_eq)

lemma fresh_y_test_nonempty:
  assumes "well_formed sk"
  shows "fresh_y_test sk \<noteq> []"
  using fresh_X_test_rect[OF assms] length_fresh(1)[OF assms] by (auto simp: rectangular_def)

lemma run_pipeline_succeeds:
  assumes "well_formed sk" and "total_algorithm (LogisticRegression sk)"
  shows "\<exists>p. run_pipeline sk self = Inr p"
proof -
  obtain s1 where s1: "load_dataset sk self = Inr s1" "X_train s1 = Some (fresh_X_train sk)"
    "y_train s1 = Some (fresh_y_train sk)"
    using load_dataset_fresh[OF assms(1), of self] by blast
  have "fresh_X_train sk \<noteq> []"
    using fresh_X_train_rect[OF assms(1)] by (simp add: rectangular_def)
  then obtain m where "LogisticRegression sk (fresh_X_train sk) (fresh_y_train sk) = Inr m"
    using assms(2) length_fresh(2)[OF assms(1)] unfolding total_algorithm_def by metis
  then show ?thesis using s1 by (simp add: run_pipeline_def train_def)
qed

lemma length_transform:
  "transform sc X = Inr X' \<Longrightarrow> length X' = length X"
  using transform_keeps_shape by blast

text \<open>
  Claim C8. For a pipeline trained by \<^verbatim>\<open>run_pipeline\<close>, of either class,
  \<^verbatim>\<open>get_accuracy()\<close> returns the number of rows of the stored test split whose prediction
  by the fitted classifier is the stored test label, divided by the number of test rows: a
  ratio of two naturals between 0 and 1.
\<close>

theorem get_accuracy_fraction_correct:
  assumes "well_formed sk"
  shows "(\<forall>self p. run_pipeline sk self = Inr p \<longrightarrow>
            (\<exists>m X y. model p = Some m \<and> X_test p = Some X \<and> y_test p = Some y \<and>
               get_accuracy p = Inr (correct_fraction m X y) \<and>
               0 \<le> correct_fraction m X y \<and> correct_fraction m X y \<le> 1)) \<and>
         (\<forall>self p. PipelineWithDataEngineering_run_pipeline sk self = Inr p \<longrightarrow>
            (\<exists>m X y. model p = Some m \<and> X_test p = Some X \<and> y_test p = Some y \<and>
               get_accuracy p = Inr (correct_fraction m X y) \<and>
               0 \<le> correct_fraction m X y \<and> correct_fraction m X y \<le> 1))"
proof (intro conjI allI impI)
  fix self :: "'a SimplePipeline_scheme" and p
  assume "run_pipeline sk self = Inr p"
  then obtain m where m: "model p = Some m" "X_test p = Some (fresh_X_test sk)"
    "y_test p = Some (fresh_y_test sk)"
    using run_pipeline_Inr by blast
  have "get_accuracy p = Inr (correct_fraction m (fresh_X_test sk) (fresh_y_test sk))"
    using get_accuracy_eq[OF m length_fresh(1)[OF assms] fresh_y_test_nonempty[OF assms]] .
  with m correct_fraction_bounds[of m "fresh_X_test sk" "fresh_y_test sk"]
  show "\<exists>m X y. model p = Some m \<and> X_test p = Some X \<and> y_test p = Some y \<and>
               get_accuracy p = Inr (correct_fraction m X y) \<and>
               0 \<le> correct_fraction m X y \<and> correct_fraction m X y \<le> 1"
    by blast
next
  fix self p
  assume "PipelineWithDataEngineering_run_pipeline sk self = Inr p"
  then obtain Xte m where m: "model p = Some m" "X_test p = Some Xte"
    "y_test p = Some (fresh_y_test sk)"
    and tr: "transform (scaler self) (fresh_X_test sk) = Inr Xte"
    using PipelineWithDataEngineering_run_pipeline_Inr by blast
  have len: "length Xte = length (fresh_y_test sk)"
    using length_transform[OF tr] length_fresh(1)[OF assms] by simp
  have "get_accuracy p = Inr (correct_fraction m Xte (fresh_y_test sk))"
    using get_accuracy_eq[OF m len fresh_y_test_nonempty[OF assms]] .
  with m correct_fraction_bounds[of m Xte "fresh_y_test sk"]
  show "\<exists>m X y. model p = Some m \<and> X_test p = Some X \<and> y_test p = Some y \<and>
               get_accuracy p = Inr (correct_fraction m X y) \<and>
               0 \<le> correct_fraction m X y \<and> correct_fraction m X y \<le> 1"
    by blast
qed

theorem get_accuracy_fraction_correct_witness:
  "\<exists>v1 p0 v2 a1 a2.
      run_pipeline toy_sklearn
        \<lparr>frame = None, feature_names = [], X_train = None, X_test = None,
         y_train = None, y_test = None, Y_test = None, model = None\<rparr> = Inr v1 \<and>
      PipelineWithDataEngineering_init toy_sklearn = Inr p0 \<and>
      PipelineWithDataEngineering_run_pipeline toy_sklearn p0 = Inr v2 \<and>
      get_accuracy v1 = Inr a1 \<and> 0 \<le> a1 \<and> a1 \<le> 1 \<and>
      get_accuracy v2 = Inr a2 \<and> 0 \<le> a2 \<and> a2 \<le> 1"
proof -
  let ?blank = "\<lparr>frame = None, feature_names = [], X_train = None, X_test = None,
         y_train = None, y_test = None, Y_test = None, model = None\<rparr> :: SimplePipeline"
  obtain v1 where v1: "run_pipeline toy_sklearn ?blank = Inr v1"
    using run_pipeline_succeeds[OF well_formed_toy total_toy] by blast
  obtain p0 where p0: "PipelineWithDataEngineering_init toy_sklearn = Inr p0" "ready toy_sklearn p0"
    using init_succeeds[OF well_formed_toy] by blast
  obtain v2 where v2: "PipelineWithDataEngineering_run_pipeline toy_sklearn p0 = Inr v2"
    using run_pipeline_ready[OF well_formed_toy total_toy p0(2)] by blast
  note acc = get_accuracy_fraction_correct[OF well_formed_toy]
  from acc v1 obtain a1 where "get_accuracy v1 = Inr a1" "0 \<le> a1" "a1 \<le> 1" by blast
  moreover from acc v2 obtain a2 where "get_accuracy v2 = Inr a2" "0 \<le> a2" "a2 \<le> 1" by blast
  ultimately show ?thesis using v1 p0(1) v2 by blast
qed

section \<open>\<^verbatim>\<open>run_pipeline\<close> reloads the split and keeps the scaler\<close>

lemma init_Inr:
  assumes "PipelineWithDataEngineering_init sk = Inr p0"
  shows "X_train p0 = Some (fresh_X_train sk)" and "fit (fresh_X_train sk) = Inr (scaler p0)"
proof -
  obtain q X where q: "SimplePipeline_init sk = Inr q" "X_train q = Some X" "X_train p0 = Some X"
    "fit X = Inr (scaler p0)"
    using init_fitted[OF assms] by blast
  have "X_train q = Some (fresh_X_train sk)"
    using q(1) load_dataset_Inr(1) unfolding SimplePipeline_init_def by blast
  then have "X = fresh_X_train sk" using q(2) by simp
  then show "X_train p0 = Some (fresh_X_train sk)" and "fit (fresh_X_train sk) = Inr (scaler p0)"
    using q by simp_all
qed

text \<open>
  Claim C10. \<^verbatim>\<open>PipelineWithDataEngineering.run_pipeline\<close> calls \<^verbatim>\<open>load_dataset\<close>, which
  replaces the stored splits, and never refits the scaler: on any object it leaves the
  scaler as it was and stores the transforms, under that stored scaler, of the freshly
  loaded train and test arrays. On an object built by the constructor (and used in any way
  since) that scaler was fitted on the training array of the constructor; this is the
  training array \<^verbatim>\<open>run_pipeline\<close> loads, because \<^verbatim>\<open>load_dataset\<close> returns the same split
  every time, so the stored data are scaled by the statistics of the current training
  split.
\<close>

theorem run_pipeline_never_refits:
  assumes "PipelineWithDataEngineering_init sk = Inr p0" and "calls sk cs p0 = Inr p"
    and "PipelineWithDataEngineering_run_pipeline sk p = Inr p'"
  shows "(\<forall>self self'. PipelineWithDataEngineering_run_pipeline sk self = Inr self' \<longrightarrow>
            scaler self' = scaler self \<and>
            (\<exists>Xtr Xte. transform (scaler self) (fresh_X_train sk) = Inr Xtr \<and>
               transform (scaler self) (fresh_X_test sk) = Inr Xte \<and>
               X_train self' = Some Xtr \<and> X_test self' = Some Xte)) \<and>
         X_train p0 = Some (fresh_X_train sk) \<and>
         (\<forall>p1. load_dataset sk p = Inr p1 \<longrightarrow> X_train p1 = X_train p0 \<and> scaler p1 = scaler p0) \<and>
         scaler p' = scaler p0 \<and>
         (\<exists>sc Xtr Xte. fit (fresh_X_train sk) = Inr sc \<and> scaler p' = sc \<and>
            transform sc (fresh_X_train sk) = Inr Xtr \<and> transform sc (fresh_X_test sk) = Inr Xte \<and>
            X_train p' = Some Xtr \<and> X_test p' = Some Xte)"
proof -
  have same: "scaler p = scaler p0" using calls_scaler[OF assms(2)] .
  have general: "scaler self' = scaler self \<and>
            (\<exists>Xtr Xte. transform (scaler self) (fresh_X_train sk) = Inr Xtr \<and>
               transform (scaler self) (fresh_X_test sk) = Inr Xte \<and>
               X_train self' = Some Xtr \<and> X_test self' = Some Xte)"
    if "PipelineWithDataEngineering_run_pipeline sk self = Inr self'" for self self'
    using PipelineWithDataEngineering_run_pipeline_Inr[OF that] by blast
  have reload: "X_train p1 = X_train p0 \<and> scaler p1 = scaler p0"
    if "load_dataset sk p = Inr p1" for p1
    using load_dataset_Inr(1)[OF that] load_dataset_scaler[OF that] init_Inr(1)[OF assms(1)] same
    by simp
  have kept: "scaler p' = scaler p0"
    using general[OF assms(3)] same by simp
  have scaled: "\<exists>sc Xtr Xte. fit (fresh_X_train sk) = Inr sc \<and> scaler p' = sc \<and>
            transform sc (fresh_X_train sk) = Inr Xtr \<and> transform sc (fresh_X_test sk) = Inr Xte \<and>
            X_train p' = Some Xtr \<and> X_test p' = Some Xte"
    using general[OF assms(3)] init_Inr(2)[OF assms(1)] same by simp
  have g: "\<forall>self self'. PipelineWithDataEngineering_run_pipeline sk self = Inr self' \<longrightarrow>
            scaler self' = scaler self \<and>
            (\<exists>Xtr Xte. transform (scaler self) (fresh_X_train sk) = Inr Xtr \<and>
               transform (scaler self) (fresh_X_test sk) = Inr Xte \<and>
               X_train self' = Some Xtr \<and> X_test self' = Some Xte)"
    by (intro allI impI) (rule general)
  have r: "\<forall>p1. load_dataset sk p = Inr p1 \<longrightarrow> X_train p1 = X_train p0 \<and> scaler p1 = scaler p0"
    by (intro allI impI) (rule reload)
  show ?thesis
    using g r kept scaled init_Inr(1)[OF assms(1)] by (intro conjI)
qed

theorem run_pipeline_never_refits_witness:
  "\<exists>p0 p p' sc Xtr.
      PipelineWithDataEngineering_init toy_sklearn = Inr p0 \<and>
      calls toy_sklearn [Run_pipeline, Apply_scaler] p0 = Inr p \<and>
      PipelineWithDataEngineering_run_pipeline toy_sklearn p = Inr p' \<and>
      fit (fresh_X_train toy_sklearn) = Inr sc \<and> scaler p' = sc \<and> scaler p0 = sc \<and>
      transform sc (fresh_X_train toy_sklearn) = Inr Xtr \<and> X_train p' = Some Xtr"
proof -
  obtain p0 where p0: "PipelineWithDataEngineering_init toy_sklearn = Inr p0" "ready toy_sklearn p0"
    using init_succeeds[OF well_formed_toy] by blast
  obtain p where p: "calls toy_sklearn [Run_pipeline, Apply_scaler] p0 = Inr p" "ready toy_sklearn p"
    using calls_ready[OF well_formed_toy total_toy p0(2)] by blast
  obtain p' where p': "PipelineWithDataEngineering_run_pipeline toy_sklearn p = Inr p'"
    using run_pipeline_ready[OF well_formed_toy total_toy p(2)] by blast
  from run_pipeline_never_refits[OF p0(1) p(1) p'] p0(1) p(1) p' show ?thesis by metis
qed

section \<open>The sizes of the split\<close>

lemma iris_shaped_sizes:
  assumes "iris_shaped sk"
  shows "length (ind_test sk (65 / 100) 42 150) = 98" and "length (ind_train sk (65 / 100) 42 150) = 52"
proof -
  have vp: "valid_permutation sk" using assms by (simp add: iris_shaped_def well_formed_def)
  have n: "n_test_of (65 / 100) 150 = 98" unfolding n_test_of_65 by simp
  show "length (ind_test sk (65 / 100) 42 150) = 98"
    using length_ind_test[OF vp, of "65 / 100" 42 150] unfolding n by simp
  show "length (ind_train sk (65 / 100) 42 150) = 52"
    using length_ind_train[OF vp, of "65 / 100" 42 150] unfolding n by simp
qed

lemma split_partition:
  assumes "valid_permutation sk"
  shows "distinct (ind_test sk ts seed n @ ind_train sk ts seed n)"
    and "set (ind_test sk ts seed n) \<union> set (ind_train sk ts seed n) = {0..<n}"
    and "set (ind_test sk ts seed n) \<inter> set (ind_train sk ts seed n) = {}"
proof -
  show d: "distinct (ind_test sk ts seed n @ ind_train sk ts seed n)"
    unfolding perm_split[OF assms] by (rule perm_distinct[OF assms])
  show "set (ind_test sk ts seed n) \<union> set (ind_train sk ts seed n) = {0..<n}"
    using perm_set[OF assms, of seed n] perm_split[OF assms, of ts seed n]
    by (metis set_append)
  show "set (ind_test sk ts seed n) \<inter> set (ind_train sk ts seed n) = {}"
    using d by simp
qed

text \<open>
  Claim C7. On the 150-row, 4-feature, 3-class dataset \<^verbatim>\<open>load_dataset\<close> succeeds
  (\<^verbatim>\<open>test_size=0.65\<close>) and stores as test subset 65% of the rows, in whole rows the
  \<open>\<lceil>0.65 \<sqdot> 150\<rceil> = 98\<close> rows at the first indices of the seeded permutation, and as
  training subset the remaining 35%, the rows at the other 52 indices, labels alike; every
  row index lies in exactly one of the two subsets.
\<close>

theorem load_dataset_split_sizes:
  assumes "iris_shaped sk"
  shows "\<exists>p. load_dataset sk self = Inr p \<and>
           X_test p = Some (map ((!) (ds_data (load_iris sk))) (ind_test sk (65 / 100) 42 150)) \<and>
           X_train p = Some (map ((!) (ds_data (load_iris sk))) (ind_train sk (65 / 100) 42 150)) \<and>
           y_test p = Some (map ((!) (ds_target (load_iris sk))) (ind_test sk (65 / 100) 42 150)) \<and>
           y_train p = Some (map ((!) (ds_target (load_iris sk))) (ind_train sk (65 / 100) 42 150)) \<and>
           length (ind_test sk (65 / 100) 42 150) = 98 \<and>
           length (ind_train sk (65 / 100) 42 150) = 52 \<and>
           distinct (ind_test sk (65 / 100) 42 150 @ ind_train sk (65 / 100) 42 150) \<and>
           set (ind_test sk (65 / 100) 42 150) \<union> set (ind_train sk (65 / 100) 42 150) = {0..<150} \<and>
           set (ind_test sk (65 / 100) 42 150) \<inter> set (ind_train sk (65 / 100) 42 150) = {}"
proof -
  have wf: "well_formed sk" and n: "length (ds_data (load_iris sk)) = 150"
    using assms by (simp_all add: iris_shaped_def)
  then have vp: "valid_permutation sk" by (simp add: well_formed_def)
  obtain p where p: "load_dataset sk self = Inr p"
    "X_train p = Some (fresh_X_train sk)" "X_test p = Some (fresh_X_test sk)"
    "y_train p = Some (fresh_y_train sk)" "y_test p = Some (fresh_y_test sk)"
    using load_dataset_fresh[OF wf, of self] by blast
  show ?thesis
    using p iris_shaped_sizes[OF assms] split_partition[OF vp, of "65 / 100" 42 150]
    unfolding fresh_X_train_def fresh_X_test_def fresh_y_train_def fresh_y_test_def n
    by (intro exI[of _ p] conjI)
qed

lemma valid_iris_like: "valid_permutation iris_like_sklearn"
  by (simp add: valid_permutation_def iris_like_sklearn_def)

lemma iris_like_target: "set (ds_target iris_like) = {0, 1, 2}"
  by (auto simp: iris_like_def)

lemma iris_shaped_iris_like: "iris_shaped iris_like_sklearn"
proof -
  have "well_formed iris_like_sklearn"
    unfolding well_formed_def
    by (simp add: valid_iris_like) (simp add: iris_like_sklearn_def iris_like_def list_all_iff)
  moreover have "length (ds_data (load_iris iris_like_sklearn)) = 150"
    and "n_features iris_like_sklearn = 4"
    by (simp_all add: iris_like_sklearn_def iris_like_def n_features_def)
  moreover have "set (ds_target (load_iris iris_like_sklearn)) = {0, 1, 2}"
    using iris_like_target by (simp add: iris_like_sklearn_def)
  ultimately show ?thesis by (simp add: iris_shaped_def)
qed

theorem load_dataset_split_sizes_witness:
  "iris_shaped iris_like_sklearn \<and>
   (\<exists>p Xte Xtr. SimplePipeline_init iris_like_sklearn = Inr p \<and>
      X_test p = Some Xte \<and> X_train p = Some Xtr \<and> length Xte = 98 \<and> length Xtr = 52)"
proof -
  let ?blank = "\<lparr>frame = None, feature_names = [], X_train = None, X_test = None,
         y_train = None, y_test = None, Y_test = None, model = None\<rparr> :: SimplePipeline"
  obtain p where p: "load_dataset iris_like_sklearn ?blank = Inr p"
    "X_test p = Some (map ((!) (ds_data (load_iris iris_like_sklearn)))
                       (ind_test iris_like_sklearn (65 / 100) 42 150))"
    "X_train p = Some (map ((!) (ds_data (load_iris iris_like_sklearn)))
                       (ind_train iris_like_sklearn (65 / 100) 42 150))"
    "length (ind_test iris_like_sklearn (65 / 100) 42 150) = 98"
    "length (ind_train iris_like_sklearn (65 / 100) 42 150) = 52"
    using load_dataset_split_sizes[OF iris_shaped_iris_like, of ?blank] by blast
  then show ?thesis
    using iris_shaped_iris_like unfolding SimplePipeline_init_def by simp
qed

section \<open>The benchmark of \<^verbatim>\<open>TestIrisPredictions\<close>\<close>

lemma setUp_Inr:
  assumes "TestIrisPredictions_setUp sk = Inr t"
  shows "\<exists>q p0. SimplePipeline_init sk = Inr q \<and> run_pipeline sk q = Inr (pipeline_v1 t) \<and>
           PipelineWithDataEngineering_init sk = Inr p0 \<and>
           PipelineWithDataEngineering_run_pipeline sk p0 = Inr (pipeline_v2 t)"
    and "y_test (pipeline_v1 t) = Some (fresh_y_test sk)"
    and "X_test (pipeline_v1 t) = Some (fresh_X_test sk)"
    and "benchmark_predictions t = replicate (length (fresh_y_test sk)) 1"
proof -
  obtain q p0 v1 v2 y where s: "SimplePipeline_init sk = Inr q"
    "PipelineWithDataEngineering_init sk = Inr p0" "run_pipeline sk q = Inr v1"
    "PipelineWithDataEngineering_run_pipeline sk p0 = Inr v2" "y_test v1 = Some y"
    and t: "t = \<lparr>pipeline_v1 = v1, pipeline_v2 = v2, benchmark_predictions = replicate (length y) 1\<rparr>"
    using assms unfolding TestIrisPredictions_setUp_def
    by (auto split: sum.splits option.splits)
  obtain m where v1: "y_test v1 = Some (fresh_y_test sk)" "X_test v1 = Some (fresh_X_test sk)"
    "model v1 = Some m"
    using run_pipeline_Inr[OF s(3)] by blast
  have y: "y = fresh_y_test sk" using s(5) v1(1) by simp
  show "\<exists>q p0. SimplePipeline_init sk = Inr q \<and> run_pipeline sk q = Inr (pipeline_v1 t) \<and>
           PipelineWithDataEngineering_init sk = Inr p0 \<and>
           PipelineWithDataEngineering_run_pipeline sk p0 = Inr (pipeline_v2 t)"
    using s t by simp
  show "y_test (pipeline_v1 t) = Some (fresh_y_test sk)" using t v1 by simp
  show "X_test (pipeline_v1 t) = Some (fresh_X_test sk)" using t v1 by simp
  show "benchmark_predictions t = replicate (length (fresh_y_test sk)) 1" using t y by simp
qed

lemma setUp_succeeds:
  assumes "well_formed sk" and "total_algorithm (LogisticRegression sk)"
  shows "\<exists>t. TestIrisPredictions_setUp sk = Inr t"
proof -
  obtain q where q: "SimplePipeline_init sk = Inr q"
    using SimplePipeline_init_fresh[OF assms(1)] by blast
  obtain p0 where p0: "PipelineWithDataEngineering_init sk = Inr p0" "ready sk p0"
    using init_succeeds[OF assms(1)] by blast
  obtain v1 where v1: "run_pipeline sk q = Inr v1"
    using run_pipeline_succeeds[OF assms] by blast
  obtain v2 where v2: "PipelineWithDataEngineering_run_pipeline sk p0 = Inr v2"
    using run_pipeline_ready[OF assms p0(2)] by blast
  obtain y where y: "y_test v1 = Some y"
    using run_pipeline_Inr[OF v1] by blast
  show ?thesis
    using q p0(1) v1 v2 y by (simp add: TestIrisPredictions_setUp_def)
qed

lemma constant_prediction_count:
  "length (filter (\<lambda>(t, p). t = p) (zip y (replicate (length y) c))) = count_list y c"
  by (induction y) auto

lemma accuracy_score_constant:
  assumes "y \<noteq> []"
  shows "accuracy_score y (replicate (length y) c) = Inr (real (count_list y c) / real (length y))"
  using assms by (simp add: accuracy_score_def constant_prediction_count)

lemma most_common_count_upper:
  "c \<in> set (map (count_list y) z) \<Longrightarrow> c \<le> foldr max (map (count_list y) z) 0"
  by (induction z) auto

lemma count_le_most_common: "count_list y c \<le> most_common_count y"
proof (cases "c \<in> set y")
  case True
  then show ?thesis
    unfolding most_common_count_def by (intro most_common_count_upper) simp
next
  case False
  then show ?thesis by (simp add: count_list_0_iff)
qed

lemma benchmark_accuracy_eq:
  assumes "well_formed sk" and "TestIrisPredictions_setUp sk = Inr t"
  shows "benchmark_accuracy t =
           Inr (real (count_list (fresh_y_test sk) 1) / real (length (fresh_y_test sk)))"
proof -
  note s = setUp_Inr(2,4)[OF assms(2)]
  have ne: "fresh_y_test sk \<noteq> []" by (rule fresh_y_test_nonempty[OF assms(1)])
  show ?thesis
    unfolding benchmark_accuracy_def s using accuracy_score_constant[OF ne] by simp
qed

text \<open>
  Claim C6, as amended. The benchmark of \<^verbatim>\<open>TestIrisPredictions\<close> predicts class 1 for every
  test row, so its accuracy is the number of test rows labelled 1 over the number of test
  rows. This is (count of the most common class) / (total test rows) exactly when class 1
  is a most common class of the test split.
\<close>

theorem benchmark_accuracy_fraction_of_ones:
  assumes "well_formed sk" and "TestIrisPredictions_setUp sk = Inr t"
  shows "y_test (pipeline_v1 t) = Some (fresh_y_test sk) \<and>
         benchmark_predictions t = replicate (length (fresh_y_test sk)) 1 \<and>
         benchmark_accuracy t =
           Inr (real (count_list (fresh_y_test sk) 1) / real (length (fresh_y_test sk))) \<and>
         (benchmark_accuracy t =
            Inr (real (most_common_count (fresh_y_test sk)) / real (length (fresh_y_test sk)))
          \<longleftrightarrow> count_list (fresh_y_test sk) 1 = most_common_count (fresh_y_test sk))"
proof -
  note s = setUp_Inr(2,4)[OF assms(2)]
  have ne: "fresh_y_test sk \<noteq> []" by (rule fresh_y_test_nonempty[OF assms(1)])
  then have len: "real (length (fresh_y_test sk)) \<noteq> 0" by simp
  have acc: "benchmark_accuracy t =
           Inr (real (count_list (fresh_y_test sk) 1) / real (length (fresh_y_test sk)))"
    by (rule benchmark_accuracy_eq[OF assms])
  have "(real (count_list (fresh_y_test sk) 1) / real (length (fresh_y_test sk)) =
         real (most_common_count (fresh_y_test sk)) / real (length (fresh_y_test sk)))
        \<longleftrightarrow> count_list (fresh_y_test sk) 1 = most_common_count (fresh_y_test sk)"
    using len by (simp add: divide_cancel_right)
  then show ?thesis using s acc by simp
qed

lemma upt_6: "[0..<6] = [0, 1, 2, 3, 4, 5]"
  by (simp add: upt_rec)

lemma toy_ind: "ind_test toy_sklearn (65 / 100) 42 6 = [5, 4, 3, 2]"
  "ind_train toy_sklearn (65 / 100) 42 6 = [1, 0]"
proof -
  have n: "n_test_of (65 / 100) 6 = 4" unfolding n_test_of_65 by simp
  show "ind_test toy_sklearn (65 / 100) 42 6 = [5, 4, 3, 2]"
    unfolding ind_test_def n by (simp add: toy_sklearn_def upt_6)
  show "ind_train toy_sklearn (65 / 100) 42 6 = [1, 0]"
    unfolding ind_train_def n by (simp add: toy_sklearn_def upt_6)
qed

lemma toy_length: "length (ds_data (load_iris toy_sklearn)) = 6"
  by (simp add: toy_sklearn_def toy_iris_def)

lemma toy_fresh_y_test: "fresh_y_test toy_sklearn = [2, 0, 1, 2]"
  unfolding fresh_y_test_def toy_length toy_ind by (simp add: toy_sklearn_def toy_iris_def)

theorem benchmark_accuracy_fraction_of_ones_witness:
  "\<exists>t. TestIrisPredictions_setUp toy_sklearn = Inr t \<and>
       y_test (pipeline_v1 t) = Some [2, 0, 1, 2] \<and> benchmark_accuracy t = Inr (1 / 4)"
proof -
  obtain t where t: "TestIrisPredictions_setUp toy_sklearn = Inr t"
    using setUp_succeeds[OF well_formed_toy total_toy] by blast
  from benchmark_accuracy_fraction_of_ones[OF well_formed_toy t] t show ?thesis
    unfolding toy_fresh_y_test by auto
qed

theorem benchmark_not_most_common_counterexample:
  "run_test benchmark_accuracy toy_sklearn = Inr (1 / 4) \<and>
   run_test (\<lambda>t. Inr (y_test (pipeline_v1 t))) toy_sklearn = Inr (Some [2, 0, 1, 2]) \<and>
   real (most_common_count [2, 0, 1, 2]) / real (length [2, 0, 1, 2 :: int]) = 1 / 2"
proof -
  obtain t where t: "TestIrisPredictions_setUp toy_sklearn = Inr t"
    using setUp_succeeds[OF well_formed_toy total_toy] by blast
  have y: "y_test (pipeline_v1 t) = Some [2, 0, 1, 2]"
    using setUp_Inr(2)[OF t] unfolding toy_fresh_y_test .
  have b: "benchmark_predictions t = [1, 1, 1, 1]"
    using setUp_Inr(4)[OF t] unfolding toy_fresh_y_test by simp
  have "benchmark_accuracy t = Inr (1 / 4)"
    unfolding benchmark_accuracy_def y b by (simp add: accuracy_score_def)
  moreover have "real (most_common_count [2, 0, 1, 2]) / real (length [2, 0, 1, 2 :: int]) = 1 / 2"
    by (simp add: most_common_count_def)
  ultimately show ?thesis using t y by (simp add: run_test_def)
qed

text \<open>The run recorded in the notebook prints a benchmark accuracy of 0.32653061224489793,
  which is 32 rows of class 1 among the 98 test rows. The other 66 test rows are of classes 0
  and 2, so one of these has at least 33: class 1 is not the most common class of the
  test split.\<close>

lemma recorded_benchmark_below_most_common:
  assumes "set y \<subseteq> {0, 1, 2}" and "length y = 98" and "count_list y 1 = 32"
  shows "count_list y 1 < most_common_count y"
proof -
  have sum: "count_list z 0 + count_list z 1 + count_list z 2 = length z"
    if "set z \<subseteq> {0, 1, 2 :: int}" for z
    using that by (induction z) auto
  have "count_list y 0 + count_list y 2 = 66"
    using sum[OF assms(1)] assms(2,3) by simp
  then have "33 \<le> count_list y 0 \<or> 33 \<le> count_list y 2" by linarith
  then show ?thesis
    using count_le_most_common[of y 0] count_le_most_common[of y 2] assms(3) by linarith
qed

section \<open>Mean and standard deviation of a standardised column\<close>











section \<open>Columns of a transformed array\<close>




section \<open>The statistics of the scaled training data\<close>






lemma toy_fresh_X_train: "fresh_X_train toy_sklearn = [[3, 6, 9, 12], [1, 2, 3, 4]]"
  unfolding fresh_X_train_def toy_length toy_ind by (simp add: toy_sklearn_def toy_iris_def)




section \<open>The differential test\<close>

text \<open>\<^verbatim>\<open>test_accuracy_compared_to_previous_version\<close> compares the accuracies of the two
  trained pipelines. Which is larger depends on the classifier the library fits on scaled
  and on unscaled rows. With \<^verbatim>\<open>apply_scaler\<close> commented out of \<^verbatim>\<open>run_pipeline\<close>, as in the
  last cell of the model-quality notebook, the two pipelines train the same classifier on
  the same arrays and report the same accuracy.\<close>

lemma without_scaler_same_accuracy:
  assumes "run_pipeline sk self1 = Inr v1"
    and "PipelineWithDataEngineering_run_pipeline_without_scaler sk self2 = Inr v2"
  shows "get_accuracy v2 = get_accuracy v1"
proof -
  have "run_pipeline sk self2 = Inr v2"
    using assms(2)
    by (simp add: run_pipeline_def PipelineWithDataEngineering_run_pipeline_without_scaler_def)
  then obtain m2 where m2: "LogisticRegression sk (fresh_X_train sk) (fresh_y_train sk) = Inr m2"
    "model v2 = Some m2" "X_test v2 = Some (fresh_X_test sk)" "y_test v2 = Some (fresh_y_test sk)"
    using run_pipeline_Inr by blast
  obtain m1 where m1: "LogisticRegression sk (fresh_X_train sk) (fresh_y_train sk) = Inr m1"
    "model v1 = Some m1" "X_test v1 = Some (fresh_X_test sk)" "y_test v1 = Some (fresh_y_test sk)"
    using run_pipeline_Inr[OF assms(1)] by blast
  have "m1 = m2" using m1(1) m2(1) by simp
  then show ?thesis using m1 m2 by (simp add: get_accuracy_def)
qed

section \<open>The benchmark test\<close>

text \<open>\<^verbatim>\<open>test_accuracy_higher_than_benchmark\<close> compares the accuracy \<^verbatim>\<open>get_accuracy\<close>
  reports for the simple pipeline with the fraction of test rows labelled 1: it passes when
  the classifier is right on more test rows than there are rows of class 1. Whether it is
  depends on the classifier the library fits.\<close>

lemma higher_than_benchmark_iff:
  assumes "well_formed sk" and "TestIrisPredictions_setUp sk = Inr t"
  shows "\<exists>m. model (pipeline_v1 t) = Some m \<and>
           actual_accuracy t = get_accuracy (pipeline_v1 t) \<and>
           test_accuracy_higher_than_benchmark t =
             Inr (count_list (fresh_y_test sk) 1 <
                  length (filter (\<lambda>i. m (fresh_X_test sk ! i) = fresh_y_test sk ! i)
                            [0..<length (fresh_y_test sk)]))"
proof -
  let ?X = "fresh_X_test sk" and ?y = "fresh_y_test sk"
  obtain q where q: "run_pipeline sk q = Inr (pipeline_v1 t)"
    using setUp_Inr(1)[OF assms(2)] by blast
  obtain m where m: "model (pipeline_v1 t) = Some m"
    using run_pipeline_Inr[OF q] by blast
  note s = setUp_Inr(2,3)[OF assms(2)]
  have ne: "?y \<noteq> []" by (rule fresh_y_test_nonempty[OF assms(1)])
  then have pos: "0 < real (length ?y)" by simp
  have len: "length ?X = length ?y" by (rule length_fresh(1)[OF assms(1)])
  have acc: "get_accuracy (pipeline_v1 t) = Inr (correct_fraction m ?X ?y)"
    by (rule get_accuracy_eq[OF m s(2) s(1) len ne])
  have act: "actual_accuracy t = Inr (correct_fraction m ?X ?y)"
    unfolding actual_accuracy_def s predict_def m using score_eq[OF len ne, of m]
    by (auto simp: score_def split: sum.splits)
  have ben: "benchmark_accuracy t = Inr (real (count_list ?y 1) / real (length ?y))"
    using benchmark_accuracy_eq[OF assms] .
  have "test_accuracy_higher_than_benchmark t =
          Inr (real (count_list ?y 1) / real (length ?y) < correct_fraction m ?X ?y)"
    unfolding test_accuracy_higher_than_benchmark_def act ben by simp
  also have "(real (count_list ?y 1) / real (length ?y) < correct_fraction m ?X ?y) \<longleftrightarrow>
      count_list ?y 1 < length (filter (\<lambda>i. m (?X ! i) = ?y ! i) [0..<length ?y])"
    unfolding correct_fraction_def using pos by (simp add: divide_less_cancel)
  finally show ?thesis using m acc act by simp
qed

section \<open>The constructor's scaler on concrete rows\<close>

lemma toy_fit:
  "fit [[3, 6, 9, 12], [1, 2, 3, 4]] = Inr \<lparr>sc_mean = [2, 4, 6, 8], sc_scale = [1, 2, 3, 4]\<rparr>"
proof -
  have m: "mean [3, 1] = 2" "mean [6, 2] = 4" "mean [9, 3] = 6" "mean [12, 4] = 8"
    by (simp_all add: mean_def)
  have "var [3, 1] = 1" "var [6, 2] = 4" "var [9, 3] = 9" "var [12, 4] = 16"
    unfolding var_def m by simp_all
  then have s: "std [3, 1] = 1" "std [6, 2] = 2" "std [9, 3] = 3" "std [12, 4] = 4"
    unfolding std_def by simp_all
  show ?thesis
    by (simp add: fit_def upt_rec column_def m s handle_zeros_in_scale_def)
qed

lemma toy_transform:
  "transform \<lparr>sc_mean = [2, 4, 6, 8], sc_scale = [1, 2, 3, 4]\<rparr> [[3, 6, 9, 12]] = Inr [[1, 1, 1, 1]]"
  "transform \<lparr>sc_mean = [2, 4, 6, 8], sc_scale = [1, 2, 3, 4]\<rparr> [] = Inl ValueError"
  by (simp_all add: transform_def upt_rec)

theorem scaler_fit_once_witness:
  "\<exists>p0 p p' m.
      PipelineWithDataEngineering_init toy_sklearn = Inr p0 \<and>
      calls toy_sklearn [Run_pipeline] p0 = Inr p \<and>
      scaler p0 = \<lparr>sc_mean = [2, 4, 6, 8], sc_scale = [1, 2, 3, 4]\<rparr> \<and> scaler p = scaler p0 \<and>
      apply_scaler p = Inr p' \<and> scaler p' = scaler p0 \<and>
      model p = Some m \<and> m [3, 6, 9, 12] = 1 \<and>
      PipelineWithDataEngineering_predict p [[3, 6, 9, 12]] = Inr [0] \<and>
      PipelineWithDataEngineering_predict p [] = Inl ValueError"
proof -
  obtain p0 where p0: "PipelineWithDataEngineering_init toy_sklearn = Inr p0" "ready toy_sklearn p0"
    using init_succeeds[OF well_formed_toy] by blast
  obtain p where run: "PipelineWithDataEngineering_run_pipeline toy_sklearn p0 = Inr p"
    and rp: "ready toy_sklearn p"
    using run_pipeline_ready[OF well_formed_toy total_toy p0(2)] by blast
  have p: "calls toy_sklearn [Run_pipeline] p0 = Inr p" using run by simp
  obtain p' where p': "apply_scaler p = Inr p'"
    using apply_scaler_ready[OF rp] by blast
  have sc: "scaler p0 = \<lparr>sc_mean = [2, 4, 6, 8], sc_scale = [1, 2, 3, 4]\<rparr>"
    using init_Inr(2)[OF p0(1)] unfolding toy_fresh_X_train toy_fit by simp
  obtain Xtr m where "LogisticRegression toy_sklearn Xtr (fresh_y_train toy_sklearn) = Inr m"
    and m: "model p = Some m"
    using PipelineWithDataEngineering_run_pipeline_Inr[OF run] by blast
  then have mdef: "m = (\<lambda>r. if r ! 0 < 2 then 0 else 1)"
    by (auto simp: toy_sklearn_def)
  note fact = scaler_fit_once[OF p0(1) p]
  have same: "scaler p = scaler p0" and same': "scaler p' = scaler p0"
    using fact p' by blast+
  have "PipelineWithDataEngineering_predict p [[3, 6, 9, 12]] = Inr (map m [[1, 1, 1, 1]])"
    using fact toy_transform(1) m unfolding sc by blast
  then have pr: "PipelineWithDataEngineering_predict p [[3, 6, 9, 12]] = Inr [0]"
    unfolding mdef by simp
  have pe: "PipelineWithDataEngineering_predict p [] = Inl ValueError"
    using fact toy_transform(2) unfolding sc by blast
  have "m [3, 6, 9, 12] = 1" unfolding mdef by simp
  with p0(1) p sc same p' same' m pr pe show ?thesis by blast
qed

section \<open>Seeded and unseeded splits\<close>

lemma well_formed_np_random: "well_formed (sk\<lparr>np_random := g\<rparr>) = well_formed sk"
  by (simp add: well_formed_def valid_permutation_def)

lemma fresh_np_random:
  "fresh_X_train (sk\<lparr>np_random := g\<rparr>) = fresh_X_train sk"
  by (simp add: fresh_X_train_def ind_train_def)

text \<open>Without a seed the split follows the module-level generator: on the six toy rows the
  test rows are those at indices 0 to 3 when that generator is in state 0 and those at
  indices 1 to 4 when it is in state 1, and the call advances the generator.\<close>

lemma unseeded_split_depends_on_generator:
  "train_test_split (toy_sklearn\<lparr>np_random := 0\<rparr>) (ds_data toy_iris) (ds_target toy_iris) (65 / 100) None =
     Inr ([[0, 7, 1, 3], [4, 4, 0, 9]],
          [[1, 2, 3, 4], [3, 6, 9, 12], [5, 1, 4, 2], [2, 2, 2, 2]], [0, 2], [0, 1, 2, 1])"
  "train_test_split (toy_sklearn\<lparr>np_random := 1\<rparr>) (ds_data toy_iris) (ds_target toy_iris) (65 / 100) None =
     Inr ([[4, 4, 0, 9], [1, 2, 3, 4]],
          [[3, 6, 9, 12], [5, 1, 4, 2], [2, 2, 2, 2], [0, 7, 1, 3]], [2, 0], [1, 2, 1, 0])"
  "np_random_after_split (toy_sklearn\<lparr>np_random := 0\<rparr>) None 6 = 1"
proof -
  have n: "n_test_of (65 / 100) 6 = 4" unfolding n_test_of_65 by simp
  have len: "length (ds_data toy_iris) = 6" "length (ds_target toy_iris) = 6"
    by (simp_all add: toy_iris_def)
  have r: "rotate 1 [0, 1, 2, 3, 4, 5 :: nat] = [1, 2, 3, 4, 5, 0]"
    by (simp add: rotate1_def)
  show "train_test_split (toy_sklearn\<lparr>np_random := 0\<rparr>) (ds_data toy_iris) (ds_target toy_iris)
          (65 / 100) None =
     Inr ([[0, 7, 1, 3], [4, 4, 0, 9]],
          [[1, 2, 3, 4], [3, 6, 9, 12], [5, 1, 4, 2], [2, 2, 2, 2]], [0, 2], [0, 1, 2, 1])"
    unfolding train_test_split_def Let_def len n
    by (simp add: toy_sklearn_def upt_6) (simp add: toy_iris_def)
  show "train_test_split (toy_sklearn\<lparr>np_random := 1\<rparr>) (ds_data toy_iris) (ds_target toy_iris)
          (65 / 100) None =
     Inr ([[4, 4, 0, 9], [1, 2, 3, 4]],
          [[3, 6, 9, 12], [5, 1, 4, 2], [2, 2, 2, 2], [0, 7, 1, 3]], [2, 0], [1, 2, 1, 0])"
    unfolding train_test_split_def Let_def len n
    by (simp add: toy_sklearn_def upt_6 r) (simp add: toy_iris_def)
  show "np_random_after_split (toy_sklearn\<lparr>np_random := 0\<rparr>) None 6 = 1"
    by (simp add: np_random_after_split_def toy_sklearn_def)
qed

theorem load_dataset_deterministic_witness:
  "\<exists>a b. load_dataset (toy_sklearn\<lparr>np_random := 0\<rparr>)
            \<lparr>frame = None, feature_names = [], X_train = None, X_test = None,
             y_train = None, y_test = None, Y_test = None, model = None\<rparr> = Inr a \<and>
         load_dataset (toy_sklearn\<lparr>np_random := 1\<rparr>)
            \<lparr>frame = None, feature_names = [], X_train = Some [replicate 4 9], X_test = None,
             y_train = Some [5], y_test = None, Y_test = None, model = Some (\<lambda>r. 7)\<rparr> = Inr b \<and>
         splits a = splits b \<and> X_train a = Some [[3, 6, 9, 12], [1, 2, 3, 4]] \<and>
         np_random_after_split (toy_sklearn\<lparr>np_random := 0\<rparr>) (Some 42) 6 = 0"
proof -
  let ?s1 = "\<lparr>frame = None, feature_names = [], X_train = None, X_test = None,
             y_train = None, y_test = None, Y_test = None, model = None\<rparr> :: SimplePipeline"
  let ?s2 = "\<lparr>frame = None, feature_names = [], X_train = Some [replicate 4 9], X_test = None,
             y_train = Some [5], y_test = None, Y_test = None, model = Some (\<lambda>r. 7)\<rparr> :: SimplePipeline"
  have wf: "well_formed (toy_sklearn\<lparr>np_random := g\<rparr>)" for g
    unfolding well_formed_np_random by (rule well_formed_toy)
  obtain a where a: "load_dataset (toy_sklearn\<lparr>np_random := 0\<rparr>) ?s1 = Inr a"
    "X_train a = Some (fresh_X_train (toy_sklearn\<lparr>np_random := 0\<rparr>))"
    using load_dataset_fresh[OF wf, of 0 ?s1] by blast
  obtain b where b: "load_dataset (toy_sklearn\<lparr>np_random := 1\<rparr>) ?s2 = Inr b"
    using load_dataset_fresh[OF wf, of 1 ?s2] by blast
  note d = load_dataset_deterministic[where sk = toy_sklearn and ?g1.0 = 0 and ?s1.0 = ?s1
      and ?g2.0 = 1 and ?s2.0 = ?s2 and seed = 42 and n = 6]
  have "splits a = splits b" using d a(1) b by simp
  moreover have "X_train a = Some [[3, 6, 9, 12], [1, 2, 3, 4]]"
    using a(2) unfolding fresh_np_random toy_fresh_X_train .
  moreover have "np_random_after_split (toy_sklearn\<lparr>np_random := 0\<rparr>) (Some 42) 6 = 0"
    using d by simp
  ultimately show ?thesis using a(1) b by blast
qed

end
